theory Spec2Isabelle
  imports Main
begin

section \<open>Strings\<close>

text \<open>
  A JavaScript string is a sequence of UTF-16 code units. A code unit is modelled as a
  natural number and a string as a list of them; \<open>js\<close> turns an ASCII literal into
  such a list. Characters outside ASCII are written by their code: the bullet is 8226,
  the em dash 8212, the en dash 8211 and the ellipsis 8230.
\<close>

type_synonym jschar = nat
type_synonym jsstring = "nat list"

definition ch :: "char \<Rightarrow> jschar" where
  "ch c = of_char c"

definition js :: "string \<Rightarrow> jsstring" where
  "js s = map ch s"

definition bullet :: jschar where "bullet = 8226"
definition mdash :: jschar where "mdash = 8212"
definition ndash :: jschar where "ndash = 8211"
definition hellip :: jschar where "hellip = 8230"
definition backslash :: jschar where "backslash = 92"
definition newline :: jschar where "newline = 10"

text \<open>
  \<open>WhiteSpace\<close> and \<open>LineTerminator\<close> of ECMAScript: the characters that
  \<open>String.prototype.trim\<close> strips and that the class escape \<open>\s\<close> matches.
\<close>

definition isLineTerminator :: "jschar \<Rightarrow> bool" where
  "isLineTerminator c \<longleftrightarrow> c = 10 \<or> c = 13 \<or> c = 8232 \<or> c = 8233"

definition isWhiteSpace :: "jschar \<Rightarrow> bool" where
  "isWhiteSpace c \<longleftrightarrow>
     c = 9 \<or> c = 10 \<or> c = 11 \<or> c = 12 \<or> c = 13 \<or> c = 32 \<or> c = 160 \<or> c = 5760 \<or>
     (8192 \<le> c \<and> c \<le> 8202) \<or> c = 8232 \<or> c = 8233 \<or> c = 8239 \<or> c = 8287 \<or>
     c = 12288 \<or> c = 65279"

definition isDigit :: "jschar \<Rightarrow> bool" where
  "isDigit c \<longleftrightarrow> 48 \<le> c \<and> c \<le> 57"

definition isWordChar :: "jschar \<Rightarrow> bool" where
  "isWordChar c \<longleftrightarrow> isDigit c \<or> (65 \<le> c \<and> c \<le> 90) \<or> c = 95 \<or> (97 \<le> c \<and> c \<le> 122)"

text \<open>
  Case mapping. An entry \<open>(lo, hi, step, u)\<close> of a table stands for the code units
  \<open>lo\<close>, \<open>lo + step\<close>, ... up to \<open>hi\<close>, which are mapped to \<open>u\<close>,
  \<open>u + step\<close>, ...; a code unit in no entry is left as it is. \<open>upperTable\<close> holds the
  code units whose upper-case form in Unicode is one other code unit, \<open>lowerTable\<close>
  those whose lower-case form is.
\<close>

definition upperTable :: "(nat \<times> nat \<times> nat \<times> nat) list" where
  "upperTable =
     [(97, 122, 1, 65),
      (181, 181, 1, 924), (224, 246, 1, 192), (248, 254, 1, 216), (255, 255, 1, 376),
      (257, 303, 2, 256), (305, 305, 1, 73), (307, 311, 2, 306), (314, 328, 2, 313),
      (331, 375, 2, 330), (378, 382, 2, 377), (383, 383, 1, 83), (384, 384, 1, 579),
      (387, 389, 2, 386), (392, 392, 1, 391), (396, 396, 1, 395), (402, 402, 1, 401),
      (405, 405, 1, 502), (409, 409, 1, 408), (410, 410, 1, 573), (414, 414, 1, 544),
      (417, 421, 2, 416), (424, 424, 1, 423), (429, 429, 1, 428), (432, 432, 1, 431),
      (436, 438, 2, 435), (441, 441, 1, 440), (445, 445, 1, 444), (447, 447, 1, 503),
      (453, 453, 1, 452), (454, 454, 1, 452), (456, 456, 1, 455), (457, 457, 1, 455),
      (459, 459, 1, 458), (460, 460, 1, 458), (462, 476, 2, 461), (477, 477, 1, 398),
      (479, 495, 2, 478), (498, 498, 1, 497), (499, 499, 1, 497), (501, 501, 1, 500),
      (505, 543, 2, 504), (547, 563, 2, 546), (572, 572, 1, 571), (575, 576, 1, 11390),
      (578, 578, 1, 577), (583, 591, 2, 582), (592, 592, 1, 11375), (593, 593, 1, 11373),
      (594, 594, 1, 11376), (595, 595, 1, 385), (596, 596, 1, 390), (598, 599, 1, 393),
      (601, 601, 1, 399), (603, 603, 1, 400), (604, 604, 1, 42923), (608, 608, 1, 403),
      (609, 609, 1, 42924), (611, 611, 1, 404), (613, 613, 1, 42893), (614, 614, 1, 42922),
      (616, 616, 1, 407), (617, 617, 1, 406), (618, 618, 1, 42926), (619, 619, 1, 11362),
      (620, 620, 1, 42925), (623, 623, 1, 412), (625, 625, 1, 11374), (626, 626, 1, 413),
      (629, 629, 1, 415), (637, 637, 1, 11364), (640, 640, 1, 422), (642, 642, 1, 42949),
      (643, 643, 1, 425), (647, 647, 1, 42929), (648, 648, 1, 430), (649, 649, 1, 580),
      (650, 651, 1, 433), (652, 652, 1, 581), (658, 658, 1, 439), (669, 669, 1, 42930),
      (670, 670, 1, 42928), (837, 837, 1, 921), (881, 883, 2, 880), (887, 887, 1, 886),
      (891, 893, 1, 1021), (940, 940, 1, 902), (941, 943, 1, 904), (945, 961, 1, 913),
      (962, 962, 1, 931), (963, 971, 1, 931), (972, 972, 1, 908), (973, 974, 1, 910),
      (976, 976, 1, 914), (977, 977, 1, 920), (981, 981, 1, 934), (982, 982, 1, 928),
      (983, 983, 1, 975), (985, 1007, 2, 984), (1008, 1008, 1, 922), (1009, 1009, 1, 929),
      (1010, 1010, 1, 1017), (1011, 1011, 1, 895), (1013, 1013, 1, 917), (1016, 1016, 1, 1015),
      (1019, 1019, 1, 1018), (1072, 1103, 1, 1040), (1104, 1119, 1, 1024),
      (1121, 1153, 2, 1120), (1163, 1215, 2, 1162), (1218, 1230, 2, 1217),
      (1231, 1231, 1, 1216), (1233, 1327, 2, 1232), (1377, 1414, 1, 1329),
      (4304, 4346, 1, 7312), (4349, 4351, 1, 7357), (5112, 5117, 1, 5104),
      (7296, 7296, 1, 1042), (7297, 7297, 1, 1044), (7298, 7298, 1, 1054),
      (7299, 7300, 1, 1057), (7301, 7301, 1, 1058), (7302, 7302, 1, 1066),
      (7303, 7303, 1, 1122), (7304, 7304, 1, 42570), (7545, 7545, 1, 42877),
      (7549, 7549, 1, 11363), (7566, 7566, 1, 42950), (7681, 7829, 2, 7680),
      (7835, 7835, 1, 7776), (7841, 7935, 2, 7840), (7936, 7943, 1, 7944),
      (7952, 7957, 1, 7960), (7968, 7975, 1, 7976), (7984, 7991, 1, 7992),
      (8000, 8005, 1, 8008), (8017, 8023, 2, 8025), (8032, 8039, 1, 8040),
      (8048, 8049, 1, 8122), (8050, 8053, 1, 8136), (8054, 8055, 1, 8154),
      (8056, 8057, 1, 8184), (8058, 8059, 1, 8170), (8060, 8061, 1, 8186),
      (8112, 8113, 1, 8120), (8126, 8126, 1, 921), (8144, 8145, 1, 8152),
      (8160, 8161, 1, 8168), (8165, 8165, 1, 8172), (8526, 8526, 1, 8498),
      (8560, 8575, 1, 8544), (8580, 8580, 1, 8579), (9424, 9449, 1, 9398),
      (11312, 11359, 1, 11264), (11361, 11361, 1, 11360), (11365, 11365, 1, 570),
      (11366, 11366, 1, 574), (11368, 11372, 2, 11367), (11379, 11379, 1, 11378),
      (11382, 11382, 1, 11381), (11393, 11491, 2, 11392), (11500, 11502, 2, 11499),
      (11507, 11507, 1, 11506), (11520, 11557, 1, 4256), (11559, 11559, 1, 4295),
      (11565, 11565, 1, 4301), (42561, 42605, 2, 42560), (42625, 42651, 2, 42624),
      (42787, 42799, 2, 42786), (42803, 42863, 2, 42802), (42874, 42876, 2, 42873),
      (42879, 42887, 2, 42878), (42892, 42892, 1, 42891), (42897, 42899, 2, 42896),
      (42900, 42900, 1, 42948), (42903, 42921, 2, 42902), (42933, 42947, 2, 42932),
      (42952, 42954, 2, 42951), (42961, 42961, 1, 42960), (42967, 42969, 2, 42966),
      (42998, 42998, 1, 42997), (43859, 43859, 1, 42931), (43888, 43967, 1, 5024),
      (65345, 65370, 1, 65313)]"

definition lowerTable :: "(nat \<times> nat \<times> nat \<times> nat) list" where
  "lowerTable =
     [(65, 90, 1, 97),
      (192, 214, 1, 224), (216, 222, 1, 248), (256, 302, 2, 257), (306, 310, 2, 307),
      (313, 327, 2, 314), (330, 374, 2, 331), (376, 376, 1, 255), (377, 381, 2, 378),
      (385, 385, 1, 595), (386, 388, 2, 387), (390, 390, 1, 596), (391, 391, 1, 392),
      (393, 394, 1, 598), (395, 395, 1, 396), (398, 398, 1, 477), (399, 399, 1, 601),
      (400, 400, 1, 603), (401, 401, 1, 402), (403, 403, 1, 608), (404, 404, 1, 611),
      (406, 406, 1, 617), (407, 407, 1, 616), (408, 408, 1, 409), (412, 412, 1, 623),
      (413, 413, 1, 626), (415, 415, 1, 629), (416, 420, 2, 417), (422, 422, 1, 640),
      (423, 423, 1, 424), (425, 425, 1, 643), (428, 428, 1, 429), (430, 430, 1, 648),
      (431, 431, 1, 432), (433, 434, 1, 650), (435, 437, 2, 436), (439, 439, 1, 658),
      (440, 440, 1, 441), (444, 444, 1, 445), (452, 452, 1, 454), (453, 453, 1, 454),
      (455, 455, 1, 457), (456, 456, 1, 457), (458, 458, 1, 460), (459, 475, 2, 460),
      (478, 494, 2, 479), (497, 497, 1, 499), (498, 500, 2, 499), (502, 502, 1, 405),
      (503, 503, 1, 447), (504, 542, 2, 505), (544, 544, 1, 414), (546, 562, 2, 547),
      (570, 570, 1, 11365), (571, 571, 1, 572), (573, 573, 1, 410), (574, 574, 1, 11366),
      (577, 577, 1, 578), (579, 579, 1, 384), (580, 580, 1, 649), (581, 581, 1, 652),
      (582, 590, 2, 583), (880, 882, 2, 881), (886, 886, 1, 887), (895, 895, 1, 1011),
      (902, 902, 1, 940), (904, 906, 1, 941), (908, 908, 1, 972), (910, 911, 1, 973),
      (913, 929, 1, 945), (931, 939, 1, 963), (975, 975, 1, 983), (984, 1006, 2, 985),
      (1012, 1012, 1, 952), (1015, 1015, 1, 1016), (1017, 1017, 1, 1010),
      (1018, 1018, 1, 1019), (1021, 1023, 1, 891), (1024, 1039, 1, 1104),
      (1040, 1071, 1, 1072), (1120, 1152, 2, 1121), (1162, 1214, 2, 1163),
      (1216, 1216, 1, 1231), (1217, 1229, 2, 1218), (1232, 1326, 2, 1233),
      (1329, 1366, 1, 1377), (4256, 4293, 1, 11520), (4295, 4295, 1, 11559),
      (4301, 4301, 1, 11565), (5024, 5103, 1, 43888), (5104, 5109, 1, 5112),
      (7312, 7354, 1, 4304), (7357, 7359, 1, 4349), (7680, 7828, 2, 7681),
      (7838, 7838, 1, 223), (7840, 7934, 2, 7841), (7944, 7951, 1, 7936),
      (7960, 7965, 1, 7952), (7976, 7983, 1, 7968), (7992, 7999, 1, 7984),
      (8008, 8013, 1, 8000), (8025, 8031, 2, 8017), (8040, 8047, 1, 8032),
      (8072, 8079, 1, 8064), (8088, 8095, 1, 8080), (8104, 8111, 1, 8096),
      (8120, 8121, 1, 8112), (8122, 8123, 1, 8048), (8124, 8124, 1, 8115),
      (8136, 8139, 1, 8050), (8140, 8140, 1, 8131), (8152, 8153, 1, 8144),
      (8154, 8155, 1, 8054), (8168, 8169, 1, 8160), (8170, 8171, 1, 8058),
      (8172, 8172, 1, 8165), (8184, 8185, 1, 8056), (8186, 8187, 1, 8060),
      (8188, 8188, 1, 8179), (8486, 8486, 1, 969), (8490, 8490, 1, 107), (8491, 8491, 1, 229),
      (8498, 8498, 1, 8526), (8544, 8559, 1, 8560), (8579, 8579, 1, 8580),
      (9398, 9423, 1, 9424), (11264, 11311, 1, 11312), (11360, 11360, 1, 11361),
      (11362, 11362, 1, 619), (11363, 11363, 1, 7549), (11364, 11364, 1, 637),
      (11367, 11371, 2, 11368), (11373, 11373, 1, 593), (11374, 11374, 1, 625),
      (11375, 11375, 1, 592), (11376, 11376, 1, 594), (11378, 11378, 1, 11379),
      (11381, 11381, 1, 11382), (11390, 11391, 1, 575), (11392, 11490, 2, 11393),
      (11499, 11501, 2, 11500), (11506, 11506, 1, 11507), (42560, 42604, 2, 42561),
      (42624, 42650, 2, 42625), (42786, 42798, 2, 42787), (42802, 42862, 2, 42803),
      (42873, 42875, 2, 42874), (42877, 42877, 1, 7545), (42878, 42886, 2, 42879),
      (42891, 42891, 1, 42892), (42893, 42893, 1, 613), (42896, 42898, 2, 42897),
      (42902, 42920, 2, 42903), (42922, 42922, 1, 614), (42923, 42923, 1, 604),
      (42924, 42924, 1, 609), (42925, 42925, 1, 620), (42926, 42926, 1, 618),
      (42928, 42928, 1, 670), (42929, 42929, 1, 647), (42930, 42930, 1, 669),
      (42931, 42931, 1, 43859), (42932, 42946, 2, 42933), (42948, 42948, 1, 42900),
      (42949, 42949, 1, 642), (42950, 42950, 1, 7566), (42951, 42953, 2, 42952),
      (42960, 42960, 1, 42961), (42966, 42968, 2, 42967), (42997, 42997, 1, 42998),
      (65313, 65338, 1, 65345)]"

definition caseOf :: "(nat \<times> nat \<times> nat \<times> nat) list \<Rightarrow> jschar \<Rightarrow> jschar" where
  "caseOf table c =
     (case find (\<lambda>(lo, hi, st, u). lo \<le> c \<and> c \<le> hi \<and> (c - lo) mod st = 0) table of
        None \<Rightarrow> c
      | Some (lo, hi, st, u) \<Rightarrow> u + (c - lo))"

definition toUpper :: "jschar \<Rightarrow> jschar" where
  "toUpper c = caseOf upperTable c"

definition toLower :: "jschar \<Rightarrow> jschar" where
  "toLower c = caseOf lowerTable c"

text \<open>
  \<open>Canonicalize\<close> of the language definition, which the ignore-case flag applies to
  every code unit: the upper-case form if that is one code unit, except that a code unit
  from 128 on is never turned into an ASCII one.
\<close>

definition canonicalize :: "jschar \<Rightarrow> jschar" where
  "canonicalize c = (let cu = toUpper c in if 128 \<le> c \<and> cu < 128 then c else cu)"

text \<open>
  \<open>s.toLowerCase()\<close>, code unit by code unit; the capital I with a dot, 304, becomes two
  code units. Two rules of Unicode are left out: a capital sigma at the end of a word
  becomes the final sigma, and a letter outside the basic plane, which is two code units,
  has a lower-case form. The program lower-cases one string, a file extension that it then
  compares with \<open>jpg\<close> and \<open>jpeg\<close>, where neither rule can make a difference.
\<close>

definition toLowerCase :: "jsstring \<Rightarrow> jsstring" where
  "toLowerCase s = concat (map (\<lambda>c. if c = 304 then [105, 775] else [toLower c]) s)"

definition trim :: "jsstring \<Rightarrow> jsstring" where
  "trim s = rev (dropWhile isWhiteSpace (rev (dropWhile isWhiteSpace s)))"

fun startsWith :: "jsstring \<Rightarrow> jsstring \<Rightarrow> bool" where
  "startsWith s [] \<longleftrightarrow> True"
| "startsWith [] (p # ps) \<longleftrightarrow> False"
| "startsWith (x # xs) (p # ps) \<longleftrightarrow> x = p \<and> startsWith xs ps"

fun includesStr :: "jsstring \<Rightarrow> jsstring \<Rightarrow> bool" where
  "includesStr [] p \<longleftrightarrow> p = []"
| "includesStr (x # xs) p \<longleftrightarrow> startsWith (x # xs) p \<or> includesStr xs p"

text \<open>\<open>s.split(c)\<close> for a separator of one character, and \<open>parts.join(sep)\<close>.\<close>

fun split :: "jschar \<Rightarrow> jsstring \<Rightarrow> jsstring list" where
  "split c [] = [[]]"
| "split c (x # xs) =
     (if x = c then [] # split c xs
      else (case split c xs of [] \<Rightarrow> [[x]] | l # ls \<Rightarrow> (x # l) # ls))"

fun join :: "jsstring \<Rightarrow> jsstring list \<Rightarrow> jsstring" where
  "join sep [] = []"
| "join sep [l] = l"
| "join sep (l # l' # ls) = l @ sep @ join sep (l' # ls)"

text \<open>\<open>s.lastIndexOf(c)\<close> is -1 when the character does not occur.\<close>

definition lastIndexOf :: "jschar \<Rightarrow> jsstring \<Rightarrow> int" where
  "lastIndexOf c s =
     (if c \<in> set s then int (length s) - 1 - int (length (takeWhile (\<lambda>x. x \<noteq> c) (rev s)))
      else - 1)"

definition substring0 :: "jsstring \<Rightarrow> int \<Rightarrow> jsstring" where
  "substring0 s e = take (nat e) s"

section \<open>Regular expressions\<close>

text \<open>
  The fragment of ECMAScript regular expressions that the program uses: characters,
  the dot, character classes, sequence, alternation, capturing groups and greedy or lazy
  repetition. The matcher is the backtracking matcher of the language definition, written
  as the list of all results in the order in which backtracking would find them; the head
  of that list is the match.
\<close>

datatype citem =
    CChar jschar
  | CRange jschar jschar
  | CSpace | CNotSpace | CDigit | CNotDigit | CWord | CNotWord

datatype regex =
    Empty
  | Lit jschar
  | Dot
  | Cls bool "citem list"
  | Seq regex regex
  | Alt regex regex
  | Grp nat regex
  | Rep bool nat "nat option" regex
  | Bol
  | Eol

fun inItem :: "citem \<Rightarrow> jschar \<Rightarrow> bool" where
  "inItem (CChar a) c \<longleftrightarrow> c = a"
| "inItem (CRange lo hi) c \<longleftrightarrow> lo \<le> c \<and> c \<le> hi"
| "inItem CSpace c \<longleftrightarrow> isWhiteSpace c"
| "inItem CNotSpace c \<longleftrightarrow> \<not> isWhiteSpace c"
| "inItem CDigit c \<longleftrightarrow> isDigit c"
| "inItem CNotDigit c \<longleftrightarrow> \<not> isDigit c"
| "inItem CWord c \<longleftrightarrow> isWordChar c"
| "inItem CNotWord c \<longleftrightarrow> \<not> isWordChar c"

definition litMatch :: "bool \<Rightarrow> jschar \<Rightarrow> jschar \<Rightarrow> bool" where
  "litMatch ic a c \<longleftrightarrow> (if ic then canonicalize c = canonicalize a else c = a)"

text \<open>
  \<open>Cls neg items\<close> is \<open>[...]\<close>, or \<open>[^...]\<close> when \<open>neg\<close> holds. With the ignore-case
  flag a character is in a class when some member of the class has the same canonical
  form. For the class escapes this is the same as being in the class: no character
  outside one of these classes has the canonical form of a character inside.
\<close>

fun inItemI :: "citem \<Rightarrow> jschar \<Rightarrow> bool" where
  "inItemI (CChar a) c \<longleftrightarrow> canonicalize c = canonicalize a"
| "inItemI (CRange lo hi) c \<longleftrightarrow> (\<exists>a \<in> {lo..hi}. canonicalize c = canonicalize a)"
| "inItemI it c \<longleftrightarrow> inItem it c"

definition clsMatch :: "bool \<Rightarrow> bool \<Rightarrow> citem list \<Rightarrow> jschar \<Rightarrow> bool" where
  "clsMatch ic neg items c \<longleftrightarrow>
     ((\<exists>it \<in> set items. if ic then inItemI it c else inItem it c) \<noteq> neg)"

type_synonym captures = "nat \<Rightarrow> jsstring option"
type_synonym mstate = "jsstring \<times> captures"

fun groupsOf :: "regex \<Rightarrow> nat list" where
  "groupsOf (Seq a b) = groupsOf a @ groupsOf b"
| "groupsOf (Alt a b) = groupsOf a @ groupsOf b"
| "groupsOf (Grp i r) = i # groupsOf r"
| "groupsOf (Rep g lo hi r) = groupsOf r"
| "groupsOf Empty = []"
| "groupsOf (Lit a) = []"
| "groupsOf Dot = []"
| "groupsOf (Cls neg items) = []"
| "groupsOf Bol = []"
| "groupsOf Eol = []"

fun rsize :: "regex \<Rightarrow> nat" where
  "rsize (Seq a b) = Suc (rsize a + rsize b)"
| "rsize (Alt a b) = Suc (rsize a + rsize b)"
| "rsize (Grp i r) = Suc (rsize r)"
| "rsize (Rep g lo hi r) = Suc (rsize r + lo)"
| "rsize Empty = 0"
| "rsize (Lit a) = 0"
| "rsize Dot = 0"
| "rsize (Cls neg items) = 0"
| "rsize Bol = 0"
| "rsize Eol = 0"

definition clearCaps :: "nat list \<Rightarrow> captures \<Rightarrow> captures" where
  "clearCaps is c = (\<lambda>i. if i \<in> set is then None else c i)"

text \<open>
  A state is the input still to be read and the captures so far; \<open>n\<close> is the length
  of the whole input, so that a state is at the start of the input when all \<open>n\<close>
  characters are still to be read. \<open>Rep g lo hi r\<close> is \<open>r{lo,hi}\<close>, greedy when \<open>g\<close>
  holds, unbounded when \<open>hi\<close> is \<open>None\<close>. As in \<open>RepeatMatcher\<close>, the captures of
  \<open>r\<close> are cleared before each iteration, and once the minimum is reached an iteration
  that reads nothing is rejected. \<open>Bol\<close> and \<open>Eol\<close> are the assertions \<open>^\<close> and
  \<open>$\<close> (the program never sets the multiline flag).
\<close>

function m :: "bool \<Rightarrow> nat \<Rightarrow> regex \<Rightarrow> mstate \<Rightarrow> mstate list" where
  "m ic n Empty st = [st]"
| "m ic n (Lit a) st =
     (case fst st of [] \<Rightarrow> [] | x # xs \<Rightarrow> if litMatch ic a x then [(xs, snd st)] else [])"
| "m ic n Dot st =
     (case fst st of [] \<Rightarrow> [] | x # xs \<Rightarrow> if isLineTerminator x then [] else [(xs, snd st)])"
| "m ic n (Cls neg items) st =
     (case fst st of [] \<Rightarrow> []
      | x # xs \<Rightarrow> if clsMatch ic neg items x then [(xs, snd st)] else [])"
| "m ic n (Seq a b) st = concat (map (m ic n b) (m ic n a st))"
| "m ic n (Alt a b) st = m ic n a st @ m ic n b st"
| "m ic n (Grp i r) st =
     map (\<lambda>y. (fst y, (snd y)(i := Some (take (length (fst st) - length (fst y)) (fst st)))))
       (m ic n r st)"
| "m ic n (Rep g lo hi r) st =
     (if hi = Some 0 then [st]
      else
        let iter = concat (map
              (\<lambda>y. if lo = 0 \<and> \<not> length (fst y) < length (fst st) then []
                   else m ic n (Rep g (lo - 1) (map_option (\<lambda>h. h - 1) hi) r) y)
              (m ic n r (fst st, clearCaps (groupsOf r) (snd st))))
        in if lo \<noteq> 0 then iter else if g then iter @ [st] else st # iter)"
| "m ic n Bol st = (if length (fst st) = n then [st] else [])"
| "m ic n Eol st = (if fst st = [] then [st] else [])"
  by pat_completeness auto
termination
  by (relation "measures [\<lambda>(ic, n, r, st). rsize r, \<lambda>(ic, n, r, st). length (fst st)]") auto

text \<open>
  A match that starts at the head of \<open>s\<close>, where \<open>s\<close> is the end of an input of
  length \<open>n\<close>: the matched text and the captures.
\<close>

definition matchAt ::
  "bool \<Rightarrow> nat \<Rightarrow> regex \<Rightarrow> jsstring \<Rightarrow> (jsstring \<times> captures) option" where
  "matchAt ic n r s =
     (case m ic n r (s, \<lambda>_. None) of
        [] \<Rightarrow> None
      | y # _ \<Rightarrow> Some (take (length s - length (fst y)) s, snd y))"

text \<open>
  The regular expressions of the program are written with these combinators:
  \<open>str ''<h1''\<close> for a run of characters, \<open>noneOf ''>''\<close> for \<open>[^>]\<close>,
  \<open>zeroOrMore\<close>, \<open>oneOrMore\<close> and \<open>lazyZeroOrMore\<close> for \<open>*\<close>, \<open>+\<close> and
  \<open>*?\<close>, and \<open>seqs\<close> for a sequence.
\<close>

fun lits :: "jsstring \<Rightarrow> regex" where
  "lits [] = Empty"
| "lits (c # cs) = Seq (Lit c) (lits cs)"

fun seqs :: "regex list \<Rightarrow> regex" where
  "seqs [] = Empty"
| "seqs (r # rs) = Seq r (seqs rs)"

definition str :: "string \<Rightarrow> regex" where "str s = lits (js s)"
definition noneOf :: "string \<Rightarrow> regex" where "noneOf s = Cls True (map CChar (js s))"
definition oneOf :: "string \<Rightarrow> regex" where "oneOf s = Cls False (map CChar (js s))"
definition space :: regex where "space = Cls False [CSpace]"
definition anyChar :: regex where "anyChar = Cls False [CSpace, CNotSpace]"
definition zeroOrMore :: "regex \<Rightarrow> regex" where "zeroOrMore r = Rep True 0 None r"
definition oneOrMore :: "regex \<Rightarrow> regex" where "oneOrMore r = Rep True 1 None r"
definition lazyZeroOrMore :: "regex \<Rightarrow> regex" where "lazyZeroOrMore r = Rep False 0 None r"
definition optional :: "regex \<Rightarrow> regex" where "optional r = Rep True 0 (Some 1) r"

text \<open>A regular expression object: the pattern and its flags (\<open>g\<close>, \<open>i\<close>).\<close>

datatype regexp = RegExp regex string

fun pattern :: "regexp \<Rightarrow> regex" where
  "pattern (RegExp r fl) = r"

fun ignoreCase :: "regexp \<Rightarrow> bool" where
  "ignoreCase (RegExp r fl) \<longleftrightarrow> CHR ''i'' \<in> set fl"

fun global :: "regexp \<Rightarrow> bool" where
  "global (RegExp r fl) \<longleftrightarrow> CHR ''g'' \<in> set fl"

text \<open>
  The first match in \<open>s\<close>, trying each start position from the left: the text before
  the match, the matched text and the captures.
\<close>

fun search ::
  "bool \<Rightarrow> nat \<Rightarrow> regex \<Rightarrow> jsstring \<Rightarrow> (jsstring \<times> jsstring \<times> captures) option" where
  "search ic n r [] = map_option (\<lambda>(mt, c). ([], mt, c)) (matchAt ic n r [])"
| "search ic n r (x # xs) =
     (case matchAt ic n r (x # xs) of
        Some (mt, c) \<Rightarrow> Some ([], mt, c)
      | None \<Rightarrow> map_option (\<lambda>(p, mt, c). (x # p, mt, c)) (search ic n r xs))"

text \<open>
  \<open>s.match(re)\<close> for \<open>re\<close> without the \<open>g\<close> flag: \<open>None\<close> is \<open>null\<close>; otherwise
  the result array, index 0 the matched text and index \<open>i\<close> the capture \<open>i\<close>
  (\<open>None\<close> there is \<open>undefined\<close>).
\<close>

definition String_match :: "jsstring \<Rightarrow> regexp \<Rightarrow> captures option" where
  "String_match s re =
     map_option (\<lambda>(p, mt, c). c(0 := Some mt))
       (search (ignoreCase re) (length s) (pattern re) s)"

text \<open>
  All matches from left to right, as \<open>match\<close> and \<open>replace\<close> with the \<open>g\<close> flag find
  them: the scan goes on behind a match, and one character further after an empty match.
\<close>

fun matches :: "bool \<Rightarrow> nat \<Rightarrow> regex \<Rightarrow> jsstring \<Rightarrow> jsstring list" where
  "matches ic n r [] = (case matchAt ic n r [] of Some (mt, c) \<Rightarrow> [mt] | None \<Rightarrow> [])"
| "matches ic n r (x # xs) =
     (case matchAt ic n r (x # xs) of
        Some (mt, c) \<Rightarrow> mt # matches ic n r (drop (length mt - 1) xs)
      | None \<Rightarrow> matches ic n r xs)"

text \<open>\<open>s.match(re)\<close> for \<open>re\<close> with the \<open>g\<close> flag: the matched texts, or \<open>null\<close>.\<close>

definition String_match_g :: "jsstring \<Rightarrow> regexp \<Rightarrow> jsstring list option" where
  "String_match_g s re =
     (case matches (ignoreCase re) (length s) (pattern re) s of
        [] \<Rightarrow> None
      | ms \<Rightarrow> Some ms)"

text \<open>
  The replacement text of a match: \<open>$$\<close> is a dollar, \<open>$&\<close> the matched text and
  \<open>$1\<close> to \<open>$9\<close> a capture when the pattern has that many groups. (The replacement
  strings of the program use no other form.)
\<close>

fun expand :: "jsstring \<Rightarrow> jsstring \<Rightarrow> captures \<Rightarrow> nat \<Rightarrow> jsstring" where
  "expand [] mt caps n = []"
| "expand [c] mt caps n = [c]"
| "expand (c # d # rest) mt caps n =
     (if c = 36 \<and> d = 36 then 36 # expand rest mt caps n
      else if c = 36 \<and> d = 38 then mt @ expand rest mt caps n
      else if c = 36 \<and> 49 \<le> d \<and> d \<le> 57 \<and> d - 48 \<le> n
        then (case caps (d - 48) of None \<Rightarrow> [] | Some g \<Rightarrow> g) @ expand rest mt caps n
      else c # expand (d # rest) mt caps n)"

fun replaceAll :: "bool \<Rightarrow> nat \<Rightarrow> regex \<Rightarrow> jsstring \<Rightarrow> jsstring \<Rightarrow> jsstring" where
  "replaceAll ic n r repl [] =
     (case matchAt ic n r [] of
        Some (mt, c) \<Rightarrow> expand repl mt c (length (groupsOf r))
      | None \<Rightarrow> [])"
| "replaceAll ic n r repl (x # xs) =
     (case matchAt ic n r (x # xs) of
        Some (mt, c) \<Rightarrow>
          expand repl mt c (length (groupsOf r)) @ (if mt = [] then [x] else [])
            @ replaceAll ic n r repl (drop (length mt - 1) xs)
      | None \<Rightarrow> x # replaceAll ic n r repl xs)"

definition replaceFirst :: "bool \<Rightarrow> nat \<Rightarrow> regex \<Rightarrow> jsstring \<Rightarrow> jsstring \<Rightarrow> jsstring" where
  "replaceFirst ic n r repl s =
     (case search ic n r s of
        None \<Rightarrow> s
      | Some (p, mt, c) \<Rightarrow>
          p @ expand repl mt c (length (groupsOf r)) @ drop (length p + length mt) s)"

text \<open>\<open>s.replace(re, repl)\<close>.\<close>

definition String_replace :: "jsstring \<Rightarrow> regexp \<Rightarrow> jsstring \<Rightarrow> jsstring" where
  "String_replace s re repl =
     (if global re then replaceAll (ignoreCase re) (length s) (pattern re) repl s
      else replaceFirst (ignoreCase re) (length s) (pattern re) repl s)"

section \<open>The RegExp constructor\<close>

text \<open>
  \<open>new RegExp(source, flags)\<close> parses a pattern at run time and throws a
  \<open>SyntaxError\<close> when the pattern is malformed. The program builds two patterns from
  data of the book, so the parser is part of the model. It reads the pattern one
  character at a time. It covers characters, the dot, classes with ranges and the
  escapes \<open>\d \D \s \S \w \W \n \r \t \f \v\<close>, escaped punctuation, groups \<open>(...)\<close> and
  \<open>(?:...)\<close>, alternation, the assertions \<open>^\<close> and \<open>$\<close>, and the quantifiers
  \<open>* + ? {n} {n,} {n,m}\<close>, each greedy or lazy. A pattern that uses anything else (a
  word boundary, a look-ahead or look-behind, a back reference, a named group, another
  escaped letter or digit) is reported as \<open>OutsideFragment\<close>: the model says nothing
  about what the program does with it.
\<close>

datatype exn =
    Error jsstring
  | SyntaxError
  | Rejected
  | OutsideFragment

datatype pmode =
    MTerm bool
  | MQuant
  | MOpen
  | MOpenQ
  | MEsc
  | MBrace1 bool jsstring "nat option"
  | MBrace2 bool jsstring nat "nat option"
  | MClassStart
  | MClass bool "citem list" bool bool
  | MClassEsc bool "citem list" bool bool

text \<open>
  The parser state: the enclosing groups (for each its capture index, if it captures,
  and the alternatives and terms read before it), the alternatives of the current group
  read so far, the terms of the current alternative (both latest first), and the number
  of capturing groups opened. \<open>MTerm q\<close> is the normal mode, \<open>q\<close> telling whether
  a quantifier may follow; \<open>MQuant\<close> is the mode right behind a quantifier.
\<close>

record pstate =
  stack :: "(nat option \<times> regex list \<times> regex list) list"
  alts :: "regex list"
  terms :: "regex list"
  ngroups :: nat
  mode :: pmode

fun mkAlt :: "regex list \<Rightarrow> regex" where
  "mkAlt [] = Empty"
| "mkAlt [a] = a"
| "mkAlt (a # b # bs) = Alt a (mkAlt (b # bs))"

definition closeAlts :: "pstate \<Rightarrow> regex" where
  "closeAlts st = mkAlt (rev (seqs (rev (terms st)) # alts st))"

definition pushTerm :: "regex \<Rightarrow> pstate \<Rightarrow> exn + pstate" where
  "pushTerm t st = Inr (st\<lparr>terms := t # terms st, mode := MTerm True\<rparr>)"

definition quantify :: "bool \<Rightarrow> nat \<Rightarrow> nat option \<Rightarrow> pstate \<Rightarrow> exn + pstate" where
  "quantify q lo hi st =
     (case terms st of
        t # ts \<Rightarrow>
          if q then Inr (st\<lparr>terms := Rep True lo hi t # ts, mode := MQuant\<rparr>)
          else Inl SyntaxError
      | [] \<Rightarrow> Inl SyntaxError)"

definition openGroup :: "nat option \<Rightarrow> nat \<Rightarrow> pstate \<Rightarrow> pstate" where
  "openGroup cap n st =
     st\<lparr>stack := (cap, alts st, terms st) # stack st, alts := [], terms := [],
        ngroups := n, mode := MTerm False\<rparr>"

definition closeGroup :: "pstate \<Rightarrow> exn + pstate" where
  "closeGroup st =
     (case stack st of
        [] \<Rightarrow> Inl SyntaxError
      | (cap, oalts, oterms) # rest \<Rightarrow>
          Inr (st\<lparr>stack := rest, alts := oalts,
                 terms := (case cap of None \<Rightarrow> closeAlts st | Some i \<Rightarrow> Grp i (closeAlts st))
                            # oterms,
                 mode := MTerm True\<rparr>))"

text \<open>The escapes: a class escape, a control escape, or an escaped punctuation character.\<close>

definition classEscape :: "jschar \<Rightarrow> citem option" where
  "classEscape c =
     (if c = ch CHR ''d'' then Some CDigit
      else if c = ch CHR ''D'' then Some CNotDigit
      else if c = ch CHR ''s'' then Some CSpace
      else if c = ch CHR ''S'' then Some CNotSpace
      else if c = ch CHR ''w'' then Some CWord
      else if c = ch CHR ''W'' then Some CNotWord
      else None)"

definition charEscape :: "jschar \<Rightarrow> jschar option" where
  "charEscape c =
     (if c = ch CHR ''n'' then Some 10
      else if c = ch CHR ''r'' then Some 13
      else if c = ch CHR ''t'' then Some 9
      else if c = ch CHR ''f'' then Some 12
      else if c = ch CHR ''v'' then Some 11
      else if isWordChar c \<and> c \<noteq> ch CHR ''_'' then None
      else Some c)"

text \<open>
  Inside a class: an atom either completes a range \<open>a-b\<close> that a dash has announced
  (the bounds must be in order), or stands alone; where a bound of such a range is a
  class escape, the dash is an ordinary member.
\<close>

definition classAtom ::
  "citem \<Rightarrow> bool \<Rightarrow> citem list \<Rightarrow> bool \<Rightarrow> bool \<Rightarrow> pstate \<Rightarrow> exn + pstate" where
  "classAtom x neg items rg dash st =
     (if dash then
        (case (items, x) of
           (CChar a # rest, CChar b) \<Rightarrow>
             if b < a then Inl SyntaxError
             else Inr (st\<lparr>mode := MClass neg (CRange a b # rest) False False\<rparr>)
         | _ \<Rightarrow> Inr (st\<lparr>mode := MClass neg (x # CChar 45 # items) False False\<rparr>))
      else Inr (st\<lparr>mode := MClass neg (x # items) True False\<rparr>))"

definition pclass ::
  "bool \<Rightarrow> citem list \<Rightarrow> bool \<Rightarrow> bool \<Rightarrow> pstate \<Rightarrow> jschar \<Rightarrow> exn + pstate" where
  "pclass neg items rg dash st c =
     (if c = ch CHR '']'' then
        pushTerm (Cls neg (rev (if dash then CChar 45 # items else items))) st
      else if c = backslash then Inr (st\<lparr>mode := MClassEsc neg items rg dash\<rparr>)
      else if c = ch CHR ''-'' then
        (if rg \<and> \<not> dash then Inr (st\<lparr>mode := MClass neg items rg True\<rparr>)
         else classAtom (CChar c) neg items rg dash st)
      else classAtom (CChar c) neg items rg dash st)"

text \<open>The normal mode; \<open>q\<close> tells whether the last term may take a quantifier.\<close>

definition pnormal :: "bool \<Rightarrow> pstate \<Rightarrow> jschar \<Rightarrow> exn + pstate" where
  "pnormal q st c =
     (if c = ch CHR ''*'' then quantify q 0 None st
      else if c = ch CHR ''+'' then quantify q 1 None st
      else if c = ch CHR ''?'' then quantify q 0 (Some 1) st
      else if c = ch CHR ''{'' then Inr (st\<lparr>mode := MBrace1 q [c] None\<rparr>)
      else if c = ch CHR ''('' then Inr (st\<lparr>mode := MOpen\<rparr>)
      else if c = ch CHR '')'' then closeGroup st
      else if c = ch CHR ''['' then Inr (st\<lparr>mode := MClassStart\<rparr>)
      else if c = backslash then Inr (st\<lparr>mode := MEsc\<rparr>)
      else if c = ch CHR ''|'' then
        Inr (st\<lparr>alts := seqs (rev (terms st)) # alts st, terms := [], mode := MTerm False\<rparr>)
      else if c = ch CHR ''.'' then pushTerm Dot st
      else if c = ch CHR ''^'' then Inr (st\<lparr>terms := Bol # terms st, mode := MTerm False\<rparr>)
      else if c = ch CHR ''$'' then Inr (st\<lparr>terms := Eol # terms st, mode := MTerm False\<rparr>)
      else pushTerm (Lit c) st)"

text \<open>
  A brace that does not turn out to be a quantifier is an ordinary character, and so
  are the characters read behind it.
\<close>

definition replay :: "jsstring \<Rightarrow> pstate \<Rightarrow> pstate" where
  "replay buf st = st\<lparr>terms := map Lit buf @ terms st\<rparr>"

definition digitOf :: "jschar \<Rightarrow> nat" where
  "digitOf c = c - 48"

definition pstep :: "pstate \<Rightarrow> jschar \<Rightarrow> exn + pstate" where
  "pstep st c =
     (case mode st of
        MTerm q \<Rightarrow> pnormal q st c
      | MQuant \<Rightarrow>
          if c = ch CHR ''?'' then
            (case terms st of
               Rep g lo hi t # ts \<Rightarrow>
                 Inr (st\<lparr>terms := Rep False lo hi t # ts, mode := MTerm False\<rparr>)
             | _ \<Rightarrow> Inl SyntaxError)
          else pnormal False st c
      | MOpen \<Rightarrow>
          if c = ch CHR ''?'' then Inr (st\<lparr>mode := MOpenQ\<rparr>)
          else pnormal False (openGroup (Some (Suc (ngroups st))) (Suc (ngroups st)) st) c
      | MOpenQ \<Rightarrow>
          if c = ch CHR '':'' then Inr (openGroup None (ngroups st) st)
          else Inl OutsideFragment
      | MEsc \<Rightarrow>
          (case classEscape c of
             Some it \<Rightarrow> pushTerm (Cls False [it]) st
           | None \<Rightarrow>
               (case charEscape c of
                  Some a \<Rightarrow> pushTerm (Lit a) st
                | None \<Rightarrow> Inl OutsideFragment))
      | MBrace1 q buf lo \<Rightarrow>
          if isDigit c then
            Inr (st\<lparr>mode := MBrace1 q (c # buf)
                   (Some ((case lo of None \<Rightarrow> 0 | Some n \<Rightarrow> 10 * n) + digitOf c))\<rparr>)
          else
            (case lo of
               None \<Rightarrow> pnormal True (replay buf st) c
             | Some n \<Rightarrow>
                 if c = ch CHR '','' then Inr (st\<lparr>mode := MBrace2 q (c # buf) n None\<rparr>)
                 else if c = ch CHR ''}'' then quantify q n (Some n) st
                 else pnormal True (replay buf st) c)
      | MBrace2 q buf lo hi \<Rightarrow>
          if isDigit c then
            Inr (st\<lparr>mode := MBrace2 q (c # buf) lo
                   (Some ((case hi of None \<Rightarrow> 0 | Some n \<Rightarrow> 10 * n) + digitOf c))\<rparr>)
          else if c = ch CHR ''}'' then
            (case hi of
               None \<Rightarrow> quantify q lo None st
             | Some h \<Rightarrow> if h < lo then Inl SyntaxError else quantify q lo (Some h) st)
          else pnormal True (replay buf st) c
      | MClassStart \<Rightarrow>
          if c = ch CHR ''^'' then Inr (st\<lparr>mode := MClass True [] False False\<rparr>)
          else pclass False [] False False st c
      | MClass neg items rg dash \<Rightarrow> pclass neg items rg dash st c
      | MClassEsc neg items rg dash \<Rightarrow>
          (case classEscape c of
             Some it \<Rightarrow> classAtom it neg items rg dash st
           | None \<Rightarrow>
               (case charEscape c of
                  Some a \<Rightarrow> classAtom (CChar a) neg items rg dash st
                | None \<Rightarrow> Inl OutsideFragment)))"

fun prun :: "exn + pstate \<Rightarrow> jsstring \<Rightarrow> exn + pstate" where
  "prun (Inl e) cs = Inl e"
| "prun (Inr st) [] = Inr st"
| "prun (Inr st) (c # cs) = prun (pstep st c) cs"

text \<open>
  At the end of the pattern every group and class must be closed and no escape may be
  pending.
\<close>

definition pfinish :: "pstate \<Rightarrow> exn + regex" where
  "pfinish st =
     (if stack st \<noteq> [] then Inl SyntaxError
      else
        (case mode st of
           MTerm q \<Rightarrow> Inr (closeAlts st)
         | MQuant \<Rightarrow> Inr (closeAlts st)
         | MBrace1 q buf lo \<Rightarrow> Inr (closeAlts (replay buf st))
         | MBrace2 q buf lo hi \<Rightarrow> Inr (closeAlts (replay buf st))
         | _ \<Rightarrow> Inl SyntaxError))"

definition pinit :: pstate where
  "pinit = \<lparr>stack = [], alts = [], terms = [], ngroups = 0, mode = MTerm False\<rparr>"

definition RegExp_new :: "jsstring \<Rightarrow> string \<Rightarrow> exn + regexp" where
  "RegExp_new source flags =
     (case prun (Inr pinit) source of
        Inl e \<Rightarrow> Inl e
      | Inr st \<Rightarrow> (case pfinish st of Inl e \<Rightarrow> Inl e | Inr r \<Rightarrow> Inr (RegExp r flags)))"

section \<open>The archive\<close>

text \<open>
  The opened archive (a \<open>JSZip\<close> object) maps a path to an entry or to nothing
  (\<open>zip.file(path)\<close> is \<open>null\<close>). Reading an entry, \<open>async('string')\<close> or
  \<open>async('base64')\<close>, gives its content or is rejected (\<open>Inl\<close>).
\<close>

record ZipObject =
  async_string :: "exn + jsstring"
  async_base64 :: "exn + jsstring"

type_synonym JSZip = "jsstring \<Rightarrow> ZipObject option"

record BookMetadata =
  title :: jsstring
  author :: jsstring
  coverImage :: "jsstring option"

record Chapter =
  content :: jsstring
  title :: jsstring

text \<open>
  \<open>idx a i\<close> is \<open>a[i]\<close> for a match array \<open>a\<close>, where the group \<open>i\<close> took part in
  the match; \<open>truthy\<close> is the truth value of a string that may be \<open>undefined\<close>
  or \<open>null\<close>.
\<close>

definition idx :: "captures \<Rightarrow> nat \<Rightarrow> jsstring" where
  "idx a i = (case a i of Some g \<Rightarrow> g | None \<Rightarrow> [])"

definition truthy :: "jsstring option \<Rightarrow> bool" where
  "truthy v \<longleftrightarrow> (case v of None \<Rightarrow> False | Some s \<Rightarrow> s \<noteq> [])"

section \<open>Chapter title\<close>

definition stripTags :: "jsstring \<Rightarrow> jsstring" where
  \<comment> \<open>\<open>.replace(/<[^>]+>/g, '')\<close>\<close>
  "stripTags s =
     String_replace s (RegExp (seqs [str ''<'', oneOrMore (noneOf ''>''), str ''>'']) ''g'') []"

definition elementText :: "string \<Rightarrow> regexp" where
  \<comment> \<open>\<open>/<tag[^>]*>(.*?)<\/tag>/i\<close>\<close>
  "elementText tag =
     RegExp (seqs [str (''<'' @ tag), zeroOrMore (noneOf ''>''), str ''>'',
                   Grp 1 (lazyZeroOrMore Dot), str (''</'' @ tag @ ''>'')]) ''i''"

definition extractTitle :: "jsstring \<Rightarrow> jsstring" where
  "extractTitle html =
     (case String_match html (elementText ''h1'') of
        Some h1Match \<Rightarrow> trim (stripTags (idx h1Match 1))
      | None \<Rightarrow>
          (case String_match html (elementText ''h2'') of
             Some h2Match \<Rightarrow> trim (stripTags (idx h2Match 1))
           | None \<Rightarrow>
               (case String_match html (elementText ''title'') of
                  Some titleMatch \<Rightarrow> trim (stripTags (idx titleMatch 1))
                | None \<Rightarrow> js ''Chapter'')))"

section \<open>Chapter text\<close>

text \<open>
  \<open>extractTextFromHtml\<close> is a chain of replacements on the variable \<open>text\<close>. Each
  commented block of the function is one definition here, in the order of the
  source; the comment of the block is its name.
\<close>

definition element :: "string \<Rightarrow> regexp" where
  \<comment> \<open>\<open>/<tag[^>]*>[\s\S]*?<\/tag>/gi\<close>\<close>
  "element tag =
     RegExp (seqs [str (''<'' @ tag), zeroOrMore (noneOf ''>''), str ''>'',
                   lazyZeroOrMore anyChar, str (''</'' @ tag @ ''>'')]) ''gi''"

definition openTag :: "string \<Rightarrow> regexp" where
  \<comment> \<open>\<open>/<tag[^>]*>/gi\<close>\<close>
  "openTag tag = RegExp (seqs [str (''<'' @ tag), zeroOrMore (noneOf ''>''), str ''>'']) ''gi''"

definition closeTag :: "string \<Rightarrow> regexp" where
  \<comment> \<open>\<open>/<\/tag>/gi\<close>\<close>
  "closeTag tag = RegExp (str (''</'' @ tag @ ''>'')) ''gi''"

definition anyTag :: "string \<Rightarrow> regexp" where
  \<comment> \<open>\<open>/<\/?tag[^>]*>/gi\<close>\<close>
  "anyTag tag =
     RegExp (seqs [str ''<'', optional (Lit 47), str tag, zeroOrMore (noneOf ''>''),
                   str ''>'']) ''gi''"

definition entity :: "string \<Rightarrow> regexp" where
  \<comment> \<open>\<open>/&name;/g\<close>\<close>
  "entity name = RegExp (str (''&'' @ name @ '';'')) ''g''"

definition isolateBody :: "jsstring \<Rightarrow> jsstring" where
  \<comment> \<open>Remove everything before \<open><body>\<close> and after \<open></body>\<close>\<close>
  "isolateBody text =
     (case String_match text
             (RegExp (seqs [str ''<body'', zeroOrMore (noneOf ''>''), str ''>'',
                            Grp 1 (lazyZeroOrMore anyChar), str ''</body>'']) ''i'') of
        Some bodyMatch \<Rightarrow> idx bodyMatch 1
      | None \<Rightarrow> text)"

definition removeNoise :: "jsstring \<Rightarrow> jsstring" where
  \<comment> \<open>Remove script, style, header, footer tags\<close>
  "removeNoise text =
     (let text = String_replace text (element ''script'') [];
          text = String_replace text (element ''style'') [];
          text = String_replace text (element ''header'') [];
          text = String_replace text (element ''footer'') []
      in text)"

definition removeTitlePage :: "jsstring \<Rightarrow> jsstring" where
  \<comment> \<open>Remove the titlepage div which contains the chapter title\<close>
  \<open>removeTitlePage text =
     String_replace text
       (RegExp (seqs [str ''<div'', oneOrMore space, str ''class="titlepage"'',
                      zeroOrMore (noneOf ''>''), str ''>'', lazyZeroOrMore anyChar,
                      str ''</div>'', zeroOrMore space, str ''</div>'', zeroOrMore space,
                      str ''</div>'']) ''gi'') []\<close>

definition escapeRegExp :: "jsstring \<Rightarrow> jsstring" where
  \<comment> \<open>\<open>titleToRemove.replace(/[.*+?^${}()|[\]\\]/g, '\\$&')\<close>\<close>
  "escapeRegExp s =
     String_replace s
       (RegExp (Cls False (map CChar (js ''.*+?^${}()|[]'' @ [backslash]))) ''g'')
       (backslash # js ''$&'')"

definition titleHeadingSource :: "jsstring \<Rightarrow> jsstring" where
  \<comment> \<open>the template \<open><h[1-6][^>]*>\s*${escapedTitle}\s*<\/h[1-6]>\<close>\<close>
  "titleHeadingSource escapedTitle =
     js ''<h[1-6][^>]*>'' @ backslash # js ''s*'' @ escapedTitle @ backslash # js ''s*<''
       @ backslash # js ''/h[1-6]>''"

definition removeTitleHeading :: "jsstring \<Rightarrow> jsstring option \<Rightarrow> exn + jsstring" where
  \<comment> \<open>Also remove any standalone h1/h2 title tags that might contain the title\<close>
  "removeTitleHeading text titleToRemove =
     (case titleToRemove of
        None \<Rightarrow> Inr text
      | Some t \<Rightarrow>
          if t = [] then Inr text
          else
            (let escapedTitle = escapeRegExp t in
             case RegExp_new (titleHeadingSource escapedTitle) ''gi'' of
               Inl e \<Rightarrow> Inl e
             | Inr re \<Rightarrow> Inr (String_replace text re [])))"

definition removeWrappers :: "jsstring \<Rightarrow> jsstring" where
  \<comment> \<open>Remove section and div wrappers but keep content\<close>
  "removeWrappers text =
     (let text = String_replace text (openTag ''section'') [];
          text = String_replace text (closeTag ''section'') [];
          text = String_replace text (openTag ''div'') [];
          text = String_replace text (closeTag ''div'') []
      in text)"

definition normalizeWhitespace :: "jsstring \<Rightarrow> jsstring" where
  \<comment> \<open>Replace newlines and multiple spaces with single space (source formatting)\<close>
  "normalizeWhitespace text =
     (let text = String_replace text (RegExp (oneOrMore (Cls False [CChar 13, CChar 10])) ''g'')
                   (js '' '');
          text = String_replace text (RegExp (oneOrMore space) ''g'') (js '' '')
      in text)"

definition handleLists :: "jsstring \<Rightarrow> jsstring" where
  \<comment> \<open>Handle lists - each list item on a new line; remove list wrapper tags\<close>
  "handleLists text =
     (let text = String_replace text
                   (RegExp (seqs [str ''<ol'', zeroOrMore (noneOf ''>''), str ''>'',
                                  zeroOrMore space, str ''<li'']) ''gi'') (js ''<ol><li'');
          text = String_replace text
                   (RegExp (seqs [str ''<ul'', zeroOrMore (noneOf ''>''), str ''>'',
                                  zeroOrMore space, str ''<li'']) ''gi'') (js ''<ul><li'');
          text = String_replace text (openTag ''li'') ([newline, bullet] @ js '' '');
          text = String_replace text (closeTag ''li'') [];
          text = String_replace text (anyTag ''ol'') [newline];
          text = String_replace text (anyTag ''ul'') [newline];
          text = String_replace text (anyTag ''nav'') []
      in text)"

definition unwrapAnchors :: "jsstring \<Rightarrow> jsstring" where
  \<comment> \<open>Handle anchor tags - extract text content\<close>
  "unwrapAnchors text =
     String_replace text
       (RegExp (seqs [str ''<a'', zeroOrMore (noneOf ''>''), str ''>'',
                      Grp 1 (lazyZeroOrMore Dot), str ''</a>'']) ''gi'') (js ''$1'')"

definition handleParagraphs :: "jsstring \<Rightarrow> jsstring" where
  \<comment> \<open>Now handle block elements - add proper paragraph breaks; handle line breaks\<close>
  "handleParagraphs text =
     (let text = String_replace text
                   (RegExp (seqs [str ''</p>'', zeroOrMore space, str ''<p'',
                                  zeroOrMore (noneOf ''>''), str ''>'']) ''gi'')
                   [newline, newline];
          text = String_replace text (closeTag ''p'') [newline, newline];
          text = String_replace text (openTag ''p'') [];
          text = String_replace text
                   (RegExp (seqs [str ''<br'', zeroOrMore space, optional (Lit 47),
                                  str ''>'']) ''gi'') [newline]
      in text)"

definition apostrophe :: jschar where "apostrophe = 39"
definition quote :: jschar where "quote = 34"

definition decodeEntities :: "jsstring \<Rightarrow> jsstring" where
  \<comment> \<open>Convert common HTML entities\<close>
  "decodeEntities text =
     (let text = String_replace text (entity ''nbsp'') (js '' '');
          text = String_replace text (entity ''amp'') (js ''&'');
          text = String_replace text (entity ''lt'') (js ''<'');
          text = String_replace text (entity ''gt'') (js ''>'');
          text = String_replace text (entity ''quot'') [quote];
          text = String_replace text (entity ''#39'') [apostrophe];
          text = String_replace text (entity ''apos'') [apostrophe];
          text = String_replace text (entity ''mdash'') [mdash];
          text = String_replace text (entity ''ndash'') [ndash];
          text = String_replace text (entity ''hellip'') [hellip];
          text = String_replace text (entity ''rsquo'') [apostrophe];
          text = String_replace text (entity ''lsquo'') [apostrophe];
          text = String_replace text (entity ''rdquo'') [quote];
          text = String_replace text (entity ''ldquo'') [quote]
      in text)"

definition cleanLines :: "jsstring \<Rightarrow> jsstring" where
  \<comment> \<open>Split by lines, clean each line, then rejoin\<close>
  "cleanLines text =
     (let lines = split newline text in
      join [newline]
        (map (\<lambda>line. String_replace (trim line) (RegExp (oneOrMore space) ''g'') (js '' ''))
           lines))"

definition collapseBlankLines :: "jsstring \<Rightarrow> jsstring" where
  \<comment> \<open>Reduce multiple consecutive newlines to max 2; remove empty lines that only have
      bullet points; clean up any remaining empty lines\<close>
  "collapseBlankLines text =
     (let text = String_replace text (RegExp (Rep True 3 None (Lit newline)) ''g'')
                   [newline, newline];
          text = String_replace text
                   (RegExp (seqs [Lit newline, Lit bullet, zeroOrMore space, Lit newline]) ''g'')
                   [newline];
          text = String_replace text
                   (RegExp (seqs [Lit newline, zeroOrMore space, Lit newline, zeroOrMore space,
                                  Lit newline]) ''g'')
                   [newline, newline]
      in text)"

text \<open>The steps of \<open>extractTextFromHtml\<close> behind the removal of the title heading.\<close>

definition formatText :: "jsstring \<Rightarrow> jsstring" where
  "formatText text =
     (let text = removeWrappers text;
          text = normalizeWhitespace text;
          text = handleLists text;
          text = unwrapAnchors text;
          text = handleParagraphs text;
          text = decodeEntities text;
          text = stripTags text;
          text = cleanLines text;
          text = collapseBlankLines text
      in trim text)"

definition extractTextFromHtml :: "jsstring \<Rightarrow> jsstring option \<Rightarrow> exn + jsstring" where
  "extractTextFromHtml html titleToRemove =
     (let text = html;
          text = isolateBody text;
          text = removeNoise text;
          text = removeTitlePage text
      in case removeTitleHeading text titleToRemove of
           Inl e \<Rightarrow> Inl e
         | Inr text \<Rightarrow> Inr (formatText text))"

section \<open>Book metadata and cover\<close>

definition mimeTypeOf :: "jsstring \<Rightarrow> jsstring" where
  \<comment> \<open>\<open>ext = coverHref.split('.').pop()?.toLowerCase()\<close>, then the choice of the type\<close>
  "mimeTypeOf coverHref =
     (let ext = toLowerCase (last (split (ch CHR ''.'') coverHref)) in
      if ext = js ''jpg'' \<or> ext = js ''jpeg'' then js ''image/jpeg'' else js ''image/png'')"

text \<open>
  The block that reads the cover, which the source repeats for each way of finding it:
  the cover stays \<open>null\<close> when the archive has no such entry, and a rejected read is
  an exception, since nothing catches it here.
\<close>

definition readCover :: "JSZip \<Rightarrow> jsstring \<Rightarrow> jsstring \<Rightarrow> exn + jsstring option" where
  "readCover zip' opfDir coverHref =
     (let coverPath = opfDir @ coverHref in
      case zip' coverPath of
        None \<Rightarrow> Inr None
      | Some coverFile \<Rightarrow>
          (case async_base64 coverFile of
             Inl e \<Rightarrow> Inl e
           | Inr coverData \<Rightarrow>
               Inr (Some (js ''data:'' @ mimeTypeOf coverHref @ js '';base64,'' @ coverData))))"

definition metaCoverId :: "jsstring \<Rightarrow> jsstring option" where
  \<comment> \<open>Method 1: EPUB 2 style, both attribute orderings\<close>
  \<open>metaCoverId opfContent =
     (let coverMatch1 = String_match opfContent
            (RegExp (seqs [str ''<meta'', zeroOrMore (noneOf ''>''), str ''name="cover"'',
                           zeroOrMore (noneOf ''>''), str ''content="'',
                           Grp 1 (oneOrMore (noneOf ''"'')), str ''"'']) ''i'');
          coverMatch2 = String_match opfContent
            (RegExp (seqs [str ''<meta'', zeroOrMore (noneOf ''>''), str ''content="'',
                           Grp 1 (oneOrMore (noneOf ''"'')), str ''"'',
                           zeroOrMore (noneOf ''>''), str ''name="cover"'']) ''i'')
      in case coverMatch1 of
           Some a \<Rightarrow> Some (idx a 1)
         | None \<Rightarrow> (case coverMatch2 of Some a \<Rightarrow> Some (idx a 1) | None \<Rightarrow> None))\<close>

definition coverImageItem :: "jsstring \<Rightarrow> JSZip \<Rightarrow> jsstring \<Rightarrow> exn + jsstring option" where
  \<comment> \<open>Method 2: EPUB 3 style, \<open><item properties="cover-image" href="..."/>\<close>\<close>
  \<open>coverImageItem opfContent zip' opfDir =
     (let epub3CoverMatch = String_match opfContent
            (RegExp (seqs [str ''<item'', zeroOrMore (noneOf ''>''),
                           str ''properties="cover-image"'', zeroOrMore (noneOf ''>''),
                           str ''href="'', Grp 1 (oneOrMore (noneOf ''"'')), str ''"'']) ''i'');
          epub3CoverMatch2 = String_match opfContent
            (RegExp (seqs [str ''<item'', zeroOrMore (noneOf ''>''), str ''href="'',
                           Grp 1 (oneOrMore (noneOf ''"'')), str ''"'',
                           zeroOrMore (noneOf ''>''), str ''properties="cover-image"'']) ''i'')
      in case epub3CoverMatch of
           Some a \<Rightarrow> readCover zip' opfDir (idx a 1)
         | None \<Rightarrow>
             (case epub3CoverMatch2 of
                Some a \<Rightarrow> readCover zip' opfDir (idx a 1)
              | None \<Rightarrow> Inr None))\<close>

definition coverItemSource1 :: "jsstring \<Rightarrow> jsstring" where
  \<comment> \<open>the template \<open><item[^>]*id="${coverId}"[^>]*href="([^"]+)"\<close>\<close>
  \<open>coverItemSource1 coverId =
     js ''<item[^>]*id="'' @ coverId @ js ''"[^>]*href="([^"]+)"''\<close>

definition coverItemSource2 :: "jsstring \<Rightarrow> jsstring" where
  \<comment> \<open>the template \<open><item[^>]*href="([^"]+)"[^>]*id="${coverId}"\<close>\<close>
  \<open>coverItemSource2 coverId =
     js ''<item[^>]*href="([^"]+)"[^>]*id="'' @ coverId @ js ''"''\<close>

definition coverItemById ::
  "jsstring \<Rightarrow> JSZip \<Rightarrow> jsstring \<Rightarrow> jsstring \<Rightarrow> exn + jsstring option" where
  \<comment> \<open>If we found a cover ID, look it up in the manifest\<close>
  "coverItemById opfContent zip' opfDir coverId =
     (case RegExp_new (coverItemSource1 coverId) ''i'' of
        Inl e \<Rightarrow> Inl e
      | Inr re1 \<Rightarrow>
          (let coverItemMatch1 = String_match opfContent re1 in
           case RegExp_new (coverItemSource2 coverId) ''i'' of
             Inl e \<Rightarrow> Inl e
           | Inr re2 \<Rightarrow>
               (let coverItemMatch2 = String_match opfContent re2;
                    href1 = (case coverItemMatch1 of None \<Rightarrow> None | Some a \<Rightarrow> a 1);
                    href2 = (case coverItemMatch2 of None \<Rightarrow> None | Some a \<Rightarrow> a 1);
                    coverHref = (if truthy href1 then href1 else href2)
                in case coverHref of
                     None \<Rightarrow> Inr None
                   | Some href \<Rightarrow> if href = [] then Inr None else readCover zip' opfDir href)))"

definition extractMetadata :: "jsstring \<Rightarrow> JSZip \<Rightarrow> jsstring \<Rightarrow> exn + BookMetadata" where
  "extractMetadata opfContent zip' opfDir =
     (let titleMatch = String_match opfContent (elementText ''dc:title'');
          title' = (case titleMatch of Some a \<Rightarrow> trim (idx a 1) | None \<Rightarrow> js ''Unknown Title'');
          authorMatch = String_match opfContent (elementText ''dc:creator'');
          author' = (case authorMatch of Some a \<Rightarrow> trim (idx a 1)
                    | None \<Rightarrow> js ''Unknown Author'');
          coverId = metaCoverId opfContent
      in case (case coverId of
                 None \<Rightarrow> coverImageItem opfContent zip' opfDir
               | Some cid \<Rightarrow> if cid = [] then coverImageItem opfContent zip' opfDir else Inr None) of
           Inl e \<Rightarrow> Inl e
         | Inr coverImage' \<Rightarrow>
             (case (case coverId of
                      None \<Rightarrow> Inr coverImage'
                    | Some cid \<Rightarrow>
                        if cid \<noteq> [] \<and> \<not> truthy coverImage'
                        then coverItemById opfContent zip' opfDir cid
                        else Inr coverImage') of
                Inl e \<Rightarrow> Inl e
              | Inr coverImage' \<Rightarrow>
                  Inr \<lparr>BookMetadata.title = title', author = author', coverImage = coverImage'\<rparr>))"

section \<open>Chapters\<close>

definition chapterIds :: "jsstring \<Rightarrow> jsstring list" where
  \<comment> \<open>Get spine items (reading order)\<close>
  \<open>chapterIds opfContent =
     (let itemRefs = String_match_g opfContent
            (RegExp (seqs [str ''<itemref'', zeroOrMore (noneOf ''>''), str ''idref="'',
                           Grp 1 (oneOrMore (noneOf ''"'')), str ''"'']) ''g'')
      in case itemRefs of
           Some refs \<Rightarrow>
             filter (\<lambda>s. s \<noteq> [])
               (map (\<lambda>ref.
                       case String_match ref
                              (RegExp (seqs [str ''idref="'', Grp 1 (oneOrMore (noneOf ''"'')),
                                             str ''"'']) []) of
                         Some a \<Rightarrow> idx a 1
                       | None \<Rightarrow> []) refs)
         | None \<Rightarrow> [])\<close>

definition manifestItems :: "jsstring \<Rightarrow> jsstring list option" where
  \<comment> \<open>Get manifest items\<close>
  "manifestItems opfContent =
     String_match_g opfContent
       (RegExp (seqs [str ''<item'', zeroOrMore (noneOf ''>''), str ''>'']) ''g'')"

text \<open>
  The body of the \<open>try\<close> block for one chapter id: \<open>Inr None\<close> when the block ends
  without pushing a chapter, \<open>Inr (Some ch)\<close> when it pushes \<open>ch\<close>, \<open>Inl e\<close> when it
  throws.
\<close>

definition findItem :: "jsstring list \<Rightarrow> jsstring \<Rightarrow> jsstring option" where
  \<comment> \<open>\<open>items.find((i) => i.includes(`id="${id}"`))\<close>\<close>
  \<open>findItem items id' = find (\<lambda>i. includesStr i (js ''id="'' @ id' @ js ''"'')) items\<close>

definition hrefOf :: "jsstring \<Rightarrow> jsstring option" where
  \<comment> \<open>\<open>item.match(/href="([^"]+)"/)\<close> and, on a match, \<open>hrefMatch[1]\<close>\<close>
  \<open>hrefOf item =
     (case String_match item
             (RegExp (seqs [str ''href="'', Grp 1 (oneOrMore (noneOf ''"'')), str ''"'']) []) of
        None \<Rightarrow> None
      | Some hrefMatch \<Rightarrow> Some (idx hrefMatch 1))\<close>

definition tryChapter ::
  "jsstring list \<Rightarrow> JSZip \<Rightarrow> jsstring \<Rightarrow> jsstring \<Rightarrow> exn + Chapter option" where
  \<open>tryChapter items zip' opfDir id' =
     (case findItem items id' of
        None \<Rightarrow> Inr None
      | Some item \<Rightarrow>
          (case hrefOf item of
             None \<Rightarrow> Inr None
           | Some href \<Rightarrow>
               (let chapterPath = opfDir @ href
                in case zip' chapterPath of
                     None \<Rightarrow> Inr None
                   | Some chapterFile \<Rightarrow>
                       (case async_string chapterFile of
                          Inl e \<Rightarrow> Inl e
                        | Inr html \<Rightarrow>
                            (let chapterTitle = extractTitle html in
                             case extractTextFromHtml html (Some chapterTitle) of
                               Inl e \<Rightarrow> Inl e
                             | Inr text \<Rightarrow>
                                 if trim text \<noteq> [] then
                                   Inr (Some \<lparr>content = text, Chapter.title = chapterTitle\<rparr>)
                                 else Inr None)))))\<close>

text \<open>The loop over the chapter ids; \<open>catch\<close> logs the exception and goes on.\<close>

fun loadChapters ::
  "jsstring list \<Rightarrow> JSZip \<Rightarrow> jsstring \<Rightarrow> jsstring list \<Rightarrow> Chapter list \<Rightarrow> Chapter list" where
  "loadChapters items zip' opfDir [] loadedChapters = loadedChapters"
| "loadChapters items zip' opfDir (id' # ids) loadedChapters =
     loadChapters items zip' opfDir ids
       (case tryChapter items zip' opfDir id' of
          Inr (Some chapter) \<Rightarrow> loadedChapters @ [chapter]
        | Inr None \<Rightarrow> loadedChapters
        | Inl e \<Rightarrow> loadedChapters)"

definition extractChapters :: "jsstring \<Rightarrow> JSZip \<Rightarrow> jsstring \<Rightarrow> Chapter list" where
  "extractChapters opfContent zip' opfDir =
     (let ids = chapterIds opfContent;
          items = manifestItems opfContent;
          loadedChapters = []
      in case items of
           Some items \<Rightarrow> loadChapters items zip' opfDir ids loadedChapters
         | None \<Rightarrow> loadedChapters)"

section \<open>Loading a book\<close>

text \<open>
  The part of the application state that \<open>loadEpub\<close> writes. The field \<open>error\<close>
  holds the exception that was caught; the screen shows its message behind
  \<open>Failed to load EPUB:\<close>.
\<close>

record AppState =
  metadata :: BookMetadata
  chapters :: "Chapter list"
  loading :: bool
  error :: "exn option"

text \<open>
  The body of the \<open>try\<close> block of \<open>loadEpub\<close>, from the opened archive on: the path of
  the package document, its directory, and the two extractions.
\<close>

definition fullPath :: "jsstring \<Rightarrow> jsstring option" where
  \<comment> \<open>\<open>containerXml.match(/full-path="([^"]+)"/)\<close> and, on a match, \<open>opfPathMatch[1]\<close>\<close>
  \<open>fullPath containerXml =
     (case String_match containerXml
             (RegExp (seqs [str ''full-path="'', Grp 1 (oneOrMore (noneOf ''"'')), str ''"''])
                []) of
        None \<Rightarrow> None
      | Some opfPathMatch \<Rightarrow> Some (idx opfPathMatch 1))\<close>

definition dirOf :: "jsstring \<Rightarrow> jsstring" where
  \<comment> \<open>\<open>opfPath.substring(0, opfPath.lastIndexOf('/') + 1)\<close>\<close>
  "dirOf opfPath = substring0 opfPath (lastIndexOf (ch CHR ''/'') opfPath + 1)"

definition parseEpub :: "JSZip \<Rightarrow> exn + (BookMetadata \<times> Chapter list)" where
  \<open>parseEpub zip' =
     (case zip' (js ''META-INF/container.xml'') of
        None \<Rightarrow> Inl (Error (js ''Invalid EPUB: Missing container.xml''))
      | Some containerFile \<Rightarrow>
          (case async_string containerFile of
             Inl e \<Rightarrow> Inl e
           | Inr containerXml \<Rightarrow>
               (case fullPath containerXml of
                  None \<Rightarrow> Inl (Error (js ''Invalid EPUB: Cannot find OPF path''))
                | Some opfPath \<Rightarrow>
                    (let opfDir = dirOf opfPath
                     in case zip' opfPath of
                          None \<Rightarrow> Inl (Error (js ''Invalid EPUB: Missing OPF file''))
                        | Some opfFile \<Rightarrow>
                            (case async_string opfFile of
                               Inl e \<Rightarrow> Inl e
                             | Inr opfContent \<Rightarrow>
                                 (case extractMetadata opfContent zip' opfDir of
                                    Inl e \<Rightarrow> Inl e
                                  | Inr bookMetadata \<Rightarrow>
                                      Inr (bookMetadata,
                                           extractChapters opfContent zip' opfDir)))))))\<close>

definition loadEpub :: "JSZip \<Rightarrow> AppState \<Rightarrow> AppState" where
  "loadEpub zip' st =
     (case parseEpub zip' of
        Inr (bookMetadata, bookChapters) \<Rightarrow>
          st\<lparr>loading := False, metadata := bookMetadata, chapters := bookChapters\<rparr>
      | Inl err \<Rightarrow> st\<lparr>loading := False, error := Some err\<rparr>)"

section \<open>Example books\<close>

text \<open>A book of one chapter, with a package document reduced to one item and one reference.\<close>

definition smallOpf :: jsstring where
  \<open>smallOpf = js ''<item id="a" href="a.html"/><itemref idref="a"/>''\<close>

definition smallZip :: JSZip where
  "smallZip =
     map_of [(js ''a.html'', \<lparr>async_string = Inr (js ''<p>Hi</p>''), async_base64 = Inr []\<rparr>)]"

text \<open>
  A book whose container and package document are in place, and whose package document
  names a cover id that is an opening parenthesis.
\<close>

definition parenOpf :: jsstring where
  \<open>parenOpf = js ''<meta name="cover" content="("/><item id="a" href="a.html"/><itemref idref="a"/>''\<close>

definition parenZip :: JSZip where
  \<open>parenZip =
     map_of
       [(js ''META-INF/container.xml'',
         \<lparr>async_string = Inr (js ''<rootfile full-path="content.opf"/>''), async_base64 = Inr []\<rparr>),
        (js ''content.opf'', \<lparr>async_string = Inr parenOpf, async_base64 = Inr []\<rparr>),
        (js ''a.html'', \<lparr>async_string = Inr (js ''<p>Hi</p>''), async_base64 = Inr []\<rparr>)]\<close>



text \<open>
  The book of the end-to-end scenario: the container names \<open>OEBPS/content.opf\<close>, the
  manifest marks \<open>cover.jpg\<close> as the cover image, the spine is \<open>ch1\<close>, \<open>ch2\<close>. The
  bytes of the cover and the markup of the second chapter are left open.
\<close>

definition scenarioContainer :: jsstring where
  \<open>scenarioContainer =
     js ''<container>\<newline><rootfiles>\<newline><rootfile full-path="OEBPS/content.opf"/>\<newline></rootfiles>\<newline></container>''\<close>

definition scenarioOpf :: jsstring where
  \<open>scenarioOpf =
     js ''<package>\<newline><metadata>\<newline><dc:title>T</dc:title>\<newline></metadata>\<newline><manifest>\<newline><item id="cover" href="cover.jpg" properties="cover-image"/>\<newline><item id="ch1" href="ch1.xhtml"/>\<newline><item id="ch2" href="ch2.xhtml"/>\<newline></manifest>\<newline><spine>\<newline><itemref idref="ch1"/>\<newline><itemref idref="ch2"/>\<newline></spine>\<newline></package>''\<close>

definition scenarioCh1 :: jsstring where
  \<open>scenarioCh1 = js ''<h1>Intro</h1><p>Hello <b>world</b>.</p><ul><li>A</li><li>B</li></ul>''\<close>

definition scenarioItems :: "jsstring list" where
  \<open>scenarioItems =
     [js ''<item id="cover" href="cover.jpg" properties="cover-image"/>'',
      js ''<item id="ch1" href="ch1.xhtml"/>'', js ''<item id="ch2" href="ch2.xhtml"/>'',
      js ''<itemref idref="ch1"/>'', js ''<itemref idref="ch2"/>'']\<close>

definition scenarioZip :: "jsstring \<Rightarrow> jsstring \<Rightarrow> JSZip" where
  "scenarioZip coverData ch2 =
     map_of
       [(js ''META-INF/container.xml'',
         \<lparr>async_string = Inr scenarioContainer, async_base64 = Inr []\<rparr>),
        (js ''OEBPS/content.opf'', \<lparr>async_string = Inr scenarioOpf, async_base64 = Inr []\<rparr>),
        (js ''OEBPS/cover.jpg'', \<lparr>async_string = Inr [], async_base64 = Inr coverData\<rparr>),
        (js ''OEBPS/ch1.xhtml'', \<lparr>async_string = Inr scenarioCh1, async_base64 = Inr []\<rparr>),
        (js ''OEBPS/ch2.xhtml'', \<lparr>async_string = Inr ch2, async_base64 = Inr []\<rparr>)]"

definition scenarioChapter :: Chapter where
  "scenarioChapter =
     \<lparr>content = js ''Hello world.'' @ [newline, newline, bullet] @ js '' A'' @ [newline, bullet]
                   @ js '' B'',
      Chapter.title = js ''Intro''\<rparr>"




text \<open>
  Two package documents with a title: on one line with blanks around it, and broken over
  two lines.
\<close>

definition oneLineTitleOpf :: jsstring where
  "oneLineTitleOpf = js ''<dc:title> A B </dc:title>''"

definition twoLineTitleOpf :: jsstring where
  "twoLineTitleOpf = js ''<dc:title>A\<newline>B</dc:title>''"

section \<open>Notions used in the properties\<close>

text \<open>
  The entities that \<open>decodeEntities\<close> knows, as they stand in a text; replacements of
  strings by single characters, one after the other; and the replacements that
  \<open>decodeEntities\<close> makes behind the one of \<open>&amp;\<close>.
\<close>

definition supportedEntities :: "jsstring list" where
  "supportedEntities =
     map (\<lambda>name. js (''&'' @ name @ '';''))
       [''nbsp'', ''amp'', ''lt'', ''gt'', ''quot'', ''#39'', ''apos'', ''mdash'', ''ndash'',
        ''hellip'', ''rsquo'', ''lsquo'', ''rdquo'', ''ldquo'']"

fun replaceEach :: "(jsstring \<times> jschar) list \<Rightarrow> jsstring \<Rightarrow> jsstring" where
  "replaceEach [] t = t"
| "replaceEach ((p, c) # ps) t =
     replaceEach ps (String_replace t (RegExp (lits p) ''g'') [c])"

definition laterSteps :: "(jsstring \<times> jschar) list" where
  "laterSteps =
     [(js ''&lt;'', 60), (js ''&gt;'', 62), (js ''&quot;'', quote), (js ''&#39;'', apostrophe),
      (js ''&apos;'', apostrophe), (js ''&mdash;'', mdash), (js ''&ndash;'', ndash),
      (js ''&hellip;'', hellip), (js ''&rsquo;'', apostrophe), (js ''&lsquo;'', apostrophe),
      (js ''&rdquo;'', quote), (js ''&ldquo;'', quote)]"

text \<open>
  What one round of the chapter loop adds to the list: the chapter that the round pushes,
  or nothing when the round ends without a push or is left through \<open>catch\<close>.
\<close>

definition pushed :: "jsstring list \<Rightarrow> JSZip \<Rightarrow> jsstring \<Rightarrow> jsstring \<Rightarrow> Chapter option" where
  "pushed items zip' opfDir id' =
     (case tryChapter items zip' opfDir id' of Inr (Some chapter) \<Rightarrow> Some chapter | _ \<Rightarrow> None)"

section \<open>First characters of a match\<close>

text \<open>
  \<open>nullable r\<close>: \<open>r\<close> may match the empty string. \<open>firstc ic r x\<close>: a match of
  \<open>r\<close> that reads something may begin with the character \<open>x\<close>. Both are
  approximations from above, computed from the pattern alone.
\<close>

fun nullable :: "regex \<Rightarrow> bool" where
  "nullable Empty = True"
| "nullable (Lit a) = False"
| "nullable Dot = False"
| "nullable (Cls neg items) = False"
| "nullable (Seq a b) = (if nullable a then nullable b else False)"
| "nullable (Alt a b) = (if nullable a then True else nullable b)"
| "nullable (Grp i r) = nullable r"
| "nullable (Rep g lo hi r) =
     (if lo = 0 then True else if hi = Some 0 then True else nullable r)"
| "nullable Bol = True"
| "nullable Eol = True"

fun firstc :: "bool \<Rightarrow> regex \<Rightarrow> jschar \<Rightarrow> bool" where
  "firstc ic Empty x = False"
| "firstc ic (Lit a) x = litMatch ic a x"
| "firstc ic Dot x = (\<not> isLineTerminator x)"
| "firstc ic (Cls neg items) x = clsMatch ic neg items x"
| "firstc ic (Seq a b) x =
     (if firstc ic a x then True else if nullable a then firstc ic b x else False)"
| "firstc ic (Alt a b) x = (if firstc ic a x then True else firstc ic b x)"
| "firstc ic (Grp i r) x = firstc ic r x"
| "firstc ic (Rep g lo hi r) x = (if hi = Some 0 then False else firstc ic r x)"
| "firstc ic Bol x = False"
| "firstc ic Eol x = False"

text \<open>
  \<open>adv ic r s s'\<close>: the rest \<open>s'\<close> is what a match of \<open>r\<close> may leave of the input
  \<open>s\<close>, as far as its first character tells.
\<close>

definition adv :: "bool \<Rightarrow> regex \<Rightarrow> jsstring \<Rightarrow> jsstring \<Rightarrow> bool" where
  "adv ic r s s' \<longleftrightarrow>
     (s' = s \<and> nullable r) \<or>
     (case s of [] \<Rightarrow> False | x # xs \<Rightarrow> firstc ic r x \<and> length s' \<le> length xs)"

text \<open>A pattern without the assertion \<open>^\<close>: its matches do not depend on the position.\<close>

fun bolFree :: "regex \<Rightarrow> bool" where
  "bolFree (Seq a b) = (if bolFree a then bolFree b else False)"
| "bolFree (Alt a b) = (if bolFree a then bolFree b else False)"
| "bolFree (Grp i r) = bolFree r"
| "bolFree (Rep g lo hi r) = bolFree r"
| "bolFree Bol = False"
| "bolFree r = True"

text \<open>A pattern that reads exactly one character.\<close>

fun atomic :: "regex \<Rightarrow> bool" where
  "atomic (Lit a) = True"
| "atomic Dot = True"
| "atomic (Cls neg items) = True"
| "atomic r = False"

section \<open>Properties of the matcher\<close>

declare m.simps(8) [simp del]

lemmas m_Rep = m.simps(8)

lemma ch_simps:
  "ch (CHR '' '') = 32"
  "ch (CHR ''!'') = 33"
  "ch (CHR 0x22) = 34"
  "ch (CHR ''#'') = 35"
  "ch (CHR ''$'') = 36"
  "ch (CHR ''%'') = 37"
  "ch (CHR ''&'') = 38"
  "ch (CHR 0x27) = 39"
  "ch (CHR ''('') = 40"
  "ch (CHR '')'') = 41"
  "ch (CHR ''*'') = 42"
  "ch (CHR ''+'') = 43"
  "ch (CHR '','') = 44"
  "ch (CHR ''-'') = 45"
  "ch (CHR ''.'') = 46"
  "ch (CHR ''/'') = 47"
  "ch (CHR ''0'') = 48"
  "ch (CHR ''1'') = 49"
  "ch (CHR ''2'') = 50"
  "ch (CHR ''3'') = 51"
  "ch (CHR ''4'') = 52"
  "ch (CHR ''5'') = 53"
  "ch (CHR ''6'') = 54"
  "ch (CHR ''7'') = 55"
  "ch (CHR ''8'') = 56"
  "ch (CHR ''9'') = 57"
  "ch (CHR '':'') = 58"
  "ch (CHR '';'') = 59"
  "ch (CHR ''<'') = 60"
  "ch (CHR ''='') = 61"
  "ch (CHR ''>'') = 62"
  "ch (CHR ''?'') = 63"
  "ch (CHR ''@'') = 64"
  "ch (CHR ''A'') = 65"
  "ch (CHR ''B'') = 66"
  "ch (CHR ''C'') = 67"
  "ch (CHR ''D'') = 68"
  "ch (CHR ''E'') = 69"
  "ch (CHR ''F'') = 70"
  "ch (CHR ''G'') = 71"
  "ch (CHR ''H'') = 72"
  "ch (CHR ''I'') = 73"
  "ch (CHR ''J'') = 74"
  "ch (CHR ''K'') = 75"
  "ch (CHR ''L'') = 76"
  "ch (CHR ''M'') = 77"
  "ch (CHR ''N'') = 78"
  "ch (CHR ''O'') = 79"
  "ch (CHR ''P'') = 80"
  "ch (CHR ''Q'') = 81"
  "ch (CHR ''R'') = 82"
  "ch (CHR ''S'') = 83"
  "ch (CHR ''T'') = 84"
  "ch (CHR ''U'') = 85"
  "ch (CHR ''V'') = 86"
  "ch (CHR ''W'') = 87"
  "ch (CHR ''X'') = 88"
  "ch (CHR ''Y'') = 89"
  "ch (CHR ''Z'') = 90"
  "ch (CHR ''['') = 91"
  "ch (CHR 0x5C) = 92"
  "ch (CHR '']'') = 93"
  "ch (CHR ''^'') = 94"
  "ch (CHR ''_'') = 95"
  "ch (CHR ''`'') = 96"
  "ch (CHR ''a'') = 97"
  "ch (CHR ''b'') = 98"
  "ch (CHR ''c'') = 99"
  "ch (CHR ''d'') = 100"
  "ch (CHR ''e'') = 101"
  "ch (CHR ''f'') = 102"
  "ch (CHR ''g'') = 103"
  "ch (CHR ''h'') = 104"
  "ch (CHR ''i'') = 105"
  "ch (CHR ''j'') = 106"
  "ch (CHR ''k'') = 107"
  "ch (CHR ''l'') = 108"
  "ch (CHR ''m'') = 109"
  "ch (CHR ''n'') = 110"
  "ch (CHR ''o'') = 111"
  "ch (CHR ''p'') = 112"
  "ch (CHR ''q'') = 113"
  "ch (CHR ''r'') = 114"
  "ch (CHR ''s'') = 115"
  "ch (CHR ''t'') = 116"
  "ch (CHR ''u'') = 117"
  "ch (CHR ''v'') = 118"
  "ch (CHR ''w'') = 119"
  "ch (CHR ''x'') = 120"
  "ch (CHR ''y'') = 121"
  "ch (CHR ''z'') = 122"
  "ch (CHR ''{'') = 123"
  "ch (CHR ''|'') = 124"
  "ch (CHR ''}'') = 125"
  "ch (CHR ''~'') = 126"
  "ch (CHR 0x0A) = 10"
  by (simp_all add: ch_def)

text \<open>Case mapping on ASCII, and what the ignore-case flag does to an ASCII pattern.\<close>

lemma caseOf_Nil [simp]: "caseOf [] c = c"
  by (simp add: caseOf_def)

lemma caseOf_Cons:
  "caseOf ((lo, hi, st, u) # table) c =
     (if lo \<le> c \<and> c \<le> hi \<and> (c - lo) mod st = 0 then u + (c - lo) else caseOf table c)"
  by (simp add: caseOf_def)

lemma caseOf_below:
  "\<forall>(lo, hi, st, u) \<in> set table. c < lo \<Longrightarrow> caseOf table c = c"
  by (induction table) (auto simp: caseOf_Cons)

lemma toUpper_ascii: "c < 128 \<Longrightarrow> toUpper c = (if 97 \<le> c \<and> c \<le> 122 then c - 32 else c)"
proof -
  assume c: "c < 128"
  have "caseOf (tl upperTable) c = c"
    by (rule caseOf_below) (use c in \<open>simp add: upperTable_def\<close>)
  then show ?thesis
    by (auto simp: toUpper_def upperTable_def caseOf_Cons)
qed

lemma toLower_ascii: "c < 128 \<Longrightarrow> toLower c = (if 65 \<le> c \<and> c \<le> 90 then c + 32 else c)"
proof -
  assume c: "c < 128"
  have "caseOf (tl lowerTable) c = c"
    by (rule caseOf_below) (use c in \<open>simp add: lowerTable_def\<close>)
  then show ?thesis
    by (auto simp: toLower_def lowerTable_def caseOf_Cons)
qed

lemma canonicalize_ascii:
  "c < 128 \<Longrightarrow> canonicalize c = (if 97 \<le> c \<and> c \<le> 122 then c - 32 else c)"
  by (simp add: canonicalize_def toUpper_ascii)

lemma canonicalize_high: "128 \<le> c \<Longrightarrow> 128 \<le> canonicalize c"
  by (cases "toUpper c < 128") (simp_all add: canonicalize_def Let_def)

lemma litMatch_plain: "litMatch False a c \<longleftrightarrow> c = a"
  by (simp add: litMatch_def)

lemma litMatch_ascii:
  "a < 128 \<Longrightarrow> c < 128 \<Longrightarrow>
   litMatch True a c \<longleftrightarrow>
     (if 97 \<le> c \<and> c \<le> 122 then c - 32 else c) = (if 97 \<le> a \<and> a \<le> 122 then a - 32 else a)"
  by (simp add: litMatch_def canonicalize_ascii)

lemma litMatch_high: "a < 128 \<Longrightarrow> 128 \<le> c \<Longrightarrow> litMatch True a c \<longleftrightarrow> False"
  using canonicalize_high[of c] by (auto simp: litMatch_def canonicalize_ascii split: if_splits)

lemma canonicalize_high_neq:
  "128 \<le> c \<Longrightarrow> a < 128 \<Longrightarrow> (canonicalize c = a) = False"
  "128 \<le> c \<Longrightarrow> a < 128 \<Longrightarrow> (a = canonicalize c) = False"
  using canonicalize_high[of c] by auto

declare inItemI.simps(2) [simp del]

lemma inItemI_range_low: "hi < 65 \<Longrightarrow> inItemI (CRange lo hi) c \<longleftrightarrow> lo \<le> c \<and> c \<le> hi"
proof -
  assume hi: "hi < 65"
  have *: "canonicalize c = canonicalize a \<longleftrightarrow> c = a" if "a \<le> hi" for a
  proof (cases "c < 128")
    case True
    with that hi show ?thesis by (auto simp: canonicalize_ascii)
  next
    case False
    with that hi canonicalize_high[of c] show ?thesis by (auto simp: canonicalize_ascii)
  qed
  show ?thesis by (auto simp: * inItemI.simps(2))
qed

lemma toLowerCase_ascii_Nil [simp]: "toLowerCase [] = []"
  by (simp add: toLowerCase_def)

lemma toLowerCase_ascii_Cons:
  "c < 128 \<Longrightarrow>
   toLowerCase (c # s) = (if 65 \<le> c \<and> c \<le> 90 then c + 32 else c) # toLowerCase s"
  by (simp add: toLowerCase_def toLower_ascii)

lemma m_first: "y \<in> set (m ic n r st) \<Longrightarrow> adv ic r (fst st) (fst y)"
proof (induction ic n r st arbitrary: y rule: m.induct)
  case (1 ic n st)
  then show ?case by (simp add: adv_def)
next
  case (2 ic n a st)
  then show ?case by (cases "fst st") (auto simp: adv_def split: if_splits)
next
  case (3 ic n st)
  then show ?case by (cases "fst st") (auto simp: adv_def split: if_splits)
next
  case (4 ic n neg items st)
  then show ?case by (cases "fst st") (auto simp: adv_def split: if_splits)
next
  case (5 ic n a b st)
  from 5(3) obtain y' where y': "y' \<in> set (m ic n a st)" and y: "y \<in> set (m ic n b y')"
    by auto
  from 5(1)[OF y'] have A: "adv ic a (fst st) (fst y')" .
  from 5(2)[OF y' y] have B: "adv ic b (fst y') (fst y)" .
  from A B show ?case
    by (cases "fst st") (auto simp: adv_def split: list.splits)
next
  case (6 ic n a b st)
  from 6(3) have "y \<in> set (m ic n a st) \<or> y \<in> set (m ic n b st)" by simp
  then show ?case
  proof
    assume "y \<in> set (m ic n a st)"
    from 6(1)[OF this] show ?thesis by (cases "fst st") (auto simp: adv_def)
  next
    assume "y \<in> set (m ic n b st)"
    from 6(2)[OF this] show ?thesis by (cases "fst st") (auto simp: adv_def)
  qed
next
  case (7 ic n i r st)
  from 7(2) obtain y' where y': "y' \<in> set (m ic n r st)" and "fst y = fst y'" by auto
  with 7(1)[OF y'] show ?case by (cases "fst st") (auto simp: adv_def)
next
  case (8 ic n g lo hi r st)
  show ?case
  proof (cases "hi = Some 0")
    case True
    with 8(3) show ?thesis by (simp add: adv_def m_Rep)
  next
    case False
    let ?st = "(fst st, clearCaps (groupsOf r) (snd st))"
    let ?it = "concat (map (\<lambda>y. if lo = 0 \<and> \<not> length (fst y) < length (fst st) then []
                   else m ic n (Rep g (lo - 1) (map_option (\<lambda>h. h - 1) hi) r) y) (m ic n r ?st))"
    from 8(3) False have "y \<in> set ?it \<or> (lo = 0 \<and> y = st)"
      by (subst (asm) m_Rep) (auto simp: Let_def split: if_splits)
    then show ?thesis
    proof
      assume "lo = 0 \<and> y = st"
      then show ?thesis by (simp add: adv_def)
    next
      assume "y \<in> set ?it"
      then obtain y' where y': "y' \<in> set (m ic n r ?st)"
        and c: "\<not> (lo = 0 \<and> \<not> length (fst y') < length (fst st))"
        and y: "y \<in> set (m ic n (Rep g (lo - 1) (map_option (\<lambda>h. h - 1) hi) r) y')"
        by (auto split: if_splits)
      from 8(1)[OF False y'] have A: "adv ic r (fst st) (fst y')" by simp
      from 8(2)[OF False y' c y]
      have B: "adv ic (Rep g (lo - 1) (map_option (\<lambda>h. h - 1) hi) r) (fst y') (fst y)" .
      from A B c False show ?thesis
        by (cases "fst st") (auto simp: adv_def split: if_splits list.splits)
    qed
  qed
next
  case (9 ic n st)
  then show ?case by (simp add: adv_def split: if_splits)
next
  case (10 ic n st)
  then show ?case by (simp add: adv_def split: if_splits)
qed

lemma m_no_first:
  assumes "\<not> nullable r" and "\<not> firstc ic r x"
  shows "m ic n r (x # xs, c) = []"
proof (rule ccontr)
  assume "m ic n r (x # xs, c) \<noteq> []"
  then obtain y where "y \<in> set (m ic n r (x # xs, c))"
    by (cases "m ic n r (x # xs, c)") auto
  from m_first[OF this] assms show False by (auto simp: adv_def)
qed

lemma m_shorter: "y \<in> set (m ic n r st) \<Longrightarrow> length (fst y) \<le> length (fst st)"
  using m_first[of y ic n r st] by (cases "fst st") (auto simp: adv_def)

text \<open>Without \<open>^\<close> in the pattern, the length of the whole input plays no part.\<close>

lemma m_bolFree: "bolFree r \<Longrightarrow> m ic n r st = m ic 0 r st"
proof (induction ic n r st rule: m.induct)
  case (5 ic n a b st)
  from 5(3) have a: "bolFree a" and b: "bolFree b" by (auto split: if_splits)
  from 5(1)[OF a] have A: "m ic n a st = m ic 0 a st" .
  have B: "map (m ic n b) (m ic n a st) = map (m ic 0 b) (m ic n a st)"
    by (rule map_cong[OF refl]) (rule 5(2)[OF _ b])
  show ?case by (simp only: m.simps(5) B) (simp only: A)
next
  case (6 ic n a b st)
  from 6(3) have a: "bolFree a" and b: "bolFree b" by (auto split: if_splits)
  from 6(1)[OF a] 6(2)[OF b] show ?case by simp
next
  case (7 ic n i r st)
  then show ?case by simp
next
  case (8 ic n g lo hi r st)
  from 8(3) have r: "bolFree r" by simp
  show ?case
  proof (cases "hi = Some 0")
    case True
    then show ?thesis by (simp add: m_Rep)
  next
    case False
    let ?st = "(fst st, clearCaps (groupsOf r) (snd st))"
    let ?f = "\<lambda>k y. if lo = 0 \<and> \<not> length (fst y) < length (fst st) then []
                   else m ic k (Rep g (lo - 1) (map_option (\<lambda>h. h - 1) hi) r) y"
    from 8(1)[OF False r] have A: "m ic n r ?st = m ic 0 r ?st" .
    have "map (?f n) (m ic n r ?st) = map (?f 0) (m ic n r ?st)"
    proof (rule map_cong[OF refl])
      fix y assume y: "y \<in> set (m ic n r ?st)"
      show "?f n y = ?f 0 y"
      proof (cases "lo = 0 \<and> \<not> length (fst y) < length (fst st)")
        case True
        then show ?thesis by simp
      next
        case c: False
        from 8(2)[OF False y c] r
        have "m ic n (Rep g (lo - 1) (map_option (\<lambda>h. h - 1) hi) r) y
              = m ic 0 (Rep g (lo - 1) (map_option (\<lambda>h. h - 1) hi) r) y" by simp
        with c show ?thesis by auto
      qed
    qed
    then have "concat (map (?f n) (m ic n r ?st)) = concat (map (?f 0) (m ic n r ?st))"
      by (rule arg_cong)
    with A have "concat (map (?f n) (m ic n r ?st)) = concat (map (?f 0) (m ic 0 r ?st))"
      by (simp only:)
    then show ?thesis
      by (simp add: m_Rep[of ic n g lo hi r st] m_Rep[of ic 0 g lo hi r st] False Let_def)
  qed
qed simp_all

lemma matchAt_bolFree: "bolFree r \<Longrightarrow> matchAt ic n r s = matchAt ic 0 r s"
  by (simp add: matchAt_def m_bolFree[of r ic n])

lemma search_bolFree:
  assumes "bolFree r"
  shows "search ic n r s = search ic 0 r s"
  by (induction s) (simp_all add: matchAt_bolFree[OF assms, of ic n] split: option.splits)

lemma matches_bolFree: "bolFree r \<Longrightarrow> matches ic n r s = matches ic 0 r s"
proof (induction "length s" arbitrary: s rule: less_induct)
  case less
  show ?case
  proof (cases s)
    case Nil
    then show ?thesis by (simp add: matchAt_bolFree[OF less(2), of ic n])
  next
    case (Cons x xs)
    have "matches ic n r (drop k xs) = matches ic 0 r (drop k xs)" for k
      by (rule less(1)) (simp_all add: Cons less(2))
    moreover have "matches ic n r xs = matches ic 0 r xs"
      by (rule less(1)) (simp_all add: Cons less(2))
    ultimately show ?thesis
      by (simp add: Cons matchAt_bolFree[OF less(2), of ic n] split: option.splits)
  qed
qed

lemma replaceAll_bolFree: "bolFree r \<Longrightarrow> replaceAll ic n r repl s = replaceAll ic 0 r repl s"
proof (induction "length s" arbitrary: s rule: less_induct)
  case less
  show ?case
  proof (cases s)
    case Nil
    then show ?thesis by (simp add: matchAt_bolFree[OF less(2), of ic n])
  next
    case (Cons x xs)
    have "replaceAll ic n r repl (drop k xs) = replaceAll ic 0 r repl (drop k xs)" for k
      by (rule less(1)) (simp_all add: Cons less(2))
    moreover have "replaceAll ic n r repl xs = replaceAll ic 0 r repl xs"
      by (rule less(1)) (simp_all add: Cons less(2))
    ultimately show ?thesis
      by (simp add: Cons matchAt_bolFree[OF less(2), of ic n] split: option.splits)
  qed
qed

lemma String_match_bolFree:
  "bolFree (pattern re) \<Longrightarrow>
   String_match s re =
     map_option (\<lambda>(p, mt, c). c(0 := Some mt)) (search (ignoreCase re) 0 (pattern re) s)"
  by (simp add: String_match_def search_bolFree[of _ _ "length s"])

lemma String_match_g_bolFree:
  "bolFree (pattern re) \<Longrightarrow>
   String_match_g s re =
     (case matches (ignoreCase re) 0 (pattern re) s of [] \<Rightarrow> None | ms \<Rightarrow> Some ms)"
  by (simp add: String_match_g_def matches_bolFree[of _ _ "length s"])

lemma String_replace_bolFree:
  "bolFree (pattern re) \<Longrightarrow>
   String_replace s re repl =
     (if global re then replaceAll (ignoreCase re) 0 (pattern re) repl s
      else replaceFirst (ignoreCase re) 0 (pattern re) repl s)"
  by (simp add: String_replace_def replaceFirst_def replaceAll_bolFree[of _ _ "length s"]
      search_bolFree[of _ _ "length s"])

lemma matchAt_no_first:
  "\<not> nullable r \<Longrightarrow> \<not> firstc ic r x \<Longrightarrow> matchAt ic n r (x # xs) = None"
  by (simp add: matchAt_def m_no_first)

lemma replaceAll_skip:
  "\<not> nullable r \<Longrightarrow> \<not> firstc ic r x \<Longrightarrow>
   replaceAll ic n r repl (x # xs) = x # replaceAll ic n r repl xs"
  by (simp add: matchAt_no_first)

lemma replaceAll_step:
  "nullable r \<or> firstc ic r x \<Longrightarrow>
   replaceAll ic n r repl (x # xs) =
     (case matchAt ic n r (x # xs) of
        Some (mt, c) \<Rightarrow>
          expand repl mt c (length (groupsOf r)) @ (if mt = [] then [x] else [])
            @ replaceAll ic n r repl (drop (length mt - 1) xs)
      | None \<Rightarrow> x # replaceAll ic n r repl xs)"
  by simp

lemma search_skip:
  "\<not> nullable r \<Longrightarrow> \<not> firstc ic r x \<Longrightarrow>
   search ic n r (x # xs) = map_option (\<lambda>(p, mt, c). (x # p, mt, c)) (search ic n r xs)"
  by (simp add: matchAt_no_first)

lemma search_step:
  "nullable r \<or> firstc ic r x \<Longrightarrow>
   search ic n r (x # xs) =
     (case matchAt ic n r (x # xs) of
        Some (mt, c) \<Rightarrow> Some ([], mt, c)
      | None \<Rightarrow> map_option (\<lambda>(p, mt, c). (x # p, mt, c)) (search ic n r xs))"
  by simp

lemma matches_skip:
  "\<not> nullable r \<Longrightarrow> \<not> firstc ic r x \<Longrightarrow> matches ic n r (x # xs) = matches ic n r xs"
  by (simp add: matchAt_no_first)

lemma matches_step:
  "nullable r \<or> firstc ic r x \<Longrightarrow>
   matches ic n r (x # xs) =
     (case matchAt ic n r (x # xs) of
        Some (mt, c) \<Rightarrow> mt # matches ic n r (drop (length mt - 1) xs)
      | None \<Rightarrow> matches ic n r xs)"
  by simp

text \<open>Repetition of a pattern that reads one character at a time.\<close>

lemma clearCaps_Nil [simp]: "clearCaps [] c = c"
  by (simp add: clearCaps_def)

lemma m_atomic:
  "atomic r \<Longrightarrow> m ic n r (x # xs, c) = (if firstc ic r x then [(xs, c)] else [])"
  "atomic r \<Longrightarrow> m ic n r ([], c) = []"
  by (cases r; simp)+

lemma groupsOf_atomic: "atomic r \<Longrightarrow> groupsOf r = []"
  by (cases r) simp_all

lemma m_Rep_done: "m ic n (Rep g lo (Some 0) r) st = [st]"
  by (simp add: m_Rep)

lemma m_Rep_atomic_Nil:
  "atomic r \<Longrightarrow> hi \<noteq> Some 0 \<Longrightarrow>
   m ic n (Rep g lo hi r) ([], c) = (if lo = 0 then [([], c)] else [])"
  by (simp add: m_Rep m_atomic groupsOf_atomic)

lemma m_Rep_atomic_min:
  "atomic r \<Longrightarrow> hi \<noteq> Some 0 \<Longrightarrow> lo \<noteq> 0 \<Longrightarrow>
   m ic n (Rep g lo hi r) (x # xs, c) =
     (if firstc ic r x then m ic n (Rep g (lo - 1) (map_option (\<lambda>h. h - 1) hi) r) (xs, c) else [])"
  by (simp add: m_Rep[of ic n g lo hi r "(x # xs, c)"] m_atomic groupsOf_atomic)

lemma m_Rep_atomic_greedy:
  "atomic r \<Longrightarrow> hi \<noteq> Some 0 \<Longrightarrow>
   m ic n (Rep True 0 hi r) (x # xs, c) =
     (if firstc ic r x then m ic n (Rep True 0 (map_option (\<lambda>h. h - 1) hi) r) (xs, c) @ [(x # xs, c)]
      else [(x # xs, c)])"
  by (simp add: m_Rep[of ic n True 0 hi r "(x # xs, c)"] m_atomic groupsOf_atomic)

lemma m_Rep_atomic_lazy:
  "atomic r \<Longrightarrow> hi \<noteq> Some 0 \<Longrightarrow>
   m ic n (Rep False 0 hi r) (x # xs, c) =
     (if firstc ic r x then (x # xs, c) # m ic n (Rep False 0 (map_option (\<lambda>h. h - 1) hi) r) (xs, c)
      else [(x # xs, c)])"
  by (simp add: m_Rep[of ic n False 0 hi r "(x # xs, c)"] m_atomic groupsOf_atomic)

lemma m_Rep_compound:
  "\<not> atomic r \<Longrightarrow>
   m ic n (Rep g lo hi r) st =
     (if hi = Some 0 then [st]
      else
        let iter = concat (map
              (\<lambda>y. if lo = 0 \<and> \<not> length (fst y) < length (fst st) then []
                   else m ic n (Rep g (lo - 1) (map_option (\<lambda>h. h - 1) hi) r) y)
              (m ic n r (fst st, clearCaps (groupsOf r) (snd st))))
        in if lo \<noteq> 0 then iter else if g then iter @ [st] else st # iter)"
  by (rule m_Rep)

section \<open>Evaluation\<close>

text \<open>
  The equations that evaluate the model on a given input. A scan steps over a character
  that cannot begin a match without running the matcher there.
\<close>

lemmas ev_chars = js_def ch_simps bullet_def mdash_def ndash_def hellip_def backslash_def
  newline_def apostrophe_def quote_def isWhiteSpace_def isLineTerminator_def isDigit_def
  isWordChar_def toLowerCase_ascii_Cons digitOf_def

lemmas ev_regex = str_def noneOf_def oneOf_def space_def anyChar_def zeroOrMore_def
  oneOrMore_def lazyZeroOrMore_def optional_def matchAt_def litMatch_plain litMatch_ascii
  litMatch_high clsMatch_def canonicalize_ascii canonicalize_high_neq inItemI_range_low
  clearCaps_def m_Rep_done m_Rep_atomic_Nil m_Rep_atomic_min m_Rep_atomic_greedy
  m_Rep_atomic_lazy m_Rep_compound String_match_bolFree String_match_g_bolFree
  String_replace_bolFree
  replaceFirst_def replaceAll_skip replaceAll_step search_skip search_step matches_skip
  matches_step

lemmas ev_parser = closeAlts_def pushTerm_def quantify_def openGroup_def closeGroup_def
  classEscape_def charEscape_def classAtom_def pclass_def pnormal_def replay_def pstep_def
  pfinish_def pinit_def RegExp_new_def

lemmas ev_text = idx_def truthy_def stripTags_def elementText_def extractTitle_def element_def
  openTag_def closeTag_def anyTag_def entity_def isolateBody_def removeNoise_def
  removeTitlePage_def escapeRegExp_def titleHeadingSource_def removeTitleHeading_def
  removeWrappers_def normalizeWhitespace_def handleLists_def unwrapAnchors_def
  handleParagraphs_def decodeEntities_def cleanLines_def collapseBlankLines_def
  formatText_def extractTextFromHtml_def trim_def Let_def

lemmas ev_book = mimeTypeOf_def readCover_def metaCoverId_def coverImageItem_def
  coverItemSource1_def coverItemSource2_def coverItemById_def extractMetadata_def
  chapterIds_def manifestItems_def findItem_def hrefOf_def tryChapter_def extractChapters_def
  fullPath_def dirOf_def parseEpub_def loadEpub_def lastIndexOf_def substring0_def

lemmas ev_scan = replaceAll.simps(2) search.simps(2) matches.simps(2)

lemmas ev = ev_chars ev_regex ev_parser ev_text ev_book

section \<open>Scans that find nothing\<close>

lemma m_Nil: "\<not> nullable r \<Longrightarrow> m ic n r ([], c) = []"
proof (rule ccontr)
  assume n: "\<not> nullable r" and "m ic n r ([], c) \<noteq> []"
  then obtain y where "y \<in> set (m ic n r ([], c))"
    by (cases "m ic n r ([], c)") auto
  from m_first[OF this] n show False by (auto simp: adv_def)
qed

lemma matchAt_Nil: "\<not> nullable r \<Longrightarrow> matchAt ic n r [] = None"
  by (simp add: matchAt_def m_Nil)

lemma replaceAll_no_start:
  assumes "\<not> nullable r" and "\<forall>c \<in> set s. \<not> firstc ic r c"
  shows "replaceAll ic n r repl s = s"
  using assms
  by (induction s) (simp_all add: matchAt_Nil replaceAll_skip del: replaceAll.simps(2))

lemma search_no_start:
  assumes "\<not> nullable r" and "\<forall>c \<in> set s. \<not> firstc ic r c"
  shows "search ic n r s = None"
  using assms
  by (induction s) (simp_all add: matchAt_Nil search_skip del: search.simps(2))

lemma matches_no_start:
  assumes "\<not> nullable r" and "\<forall>c \<in> set s. \<not> firstc ic r c"
  shows "matches ic n r s = []"
  using assms
  by (induction s) (simp_all add: matchAt_Nil matches_skip del: matches.simps(2))

section \<open>Patterns that are a run of characters\<close>

lemma startsWith_length: "startsWith s w \<Longrightarrow> length w \<le> length s \<and> take (length w) s = w"
  by (induction s w rule: startsWith.induct) auto

lemma m_lits:
  "m False n (lits w) (s, c) = (if startsWith s w then [(drop (length w) s, c)] else [])"
proof (induction w arbitrary: s)
  case Nil
  then show ?case by simp
next
  case (Cons a w)
  show ?case
    by (cases s) (simp_all add: Cons.IH litMatch_def)
qed

lemma matchAt_lits:
  "matchAt False n (lits w) s = (if startsWith s w then Some (w, \<lambda>_. None) else None)"
  using startsWith_length[of s w] by (auto simp: matchAt_def m_lits)

lemma groupsOf_lits [simp]: "groupsOf (lits w) = []"
  by (induction w) auto

lemma expand_plain: "36 \<notin> set repl \<Longrightarrow> expand repl mt c n = repl"
  by (induction repl mt c n rule: expand.induct) auto

lemma replaceAll_lits_Nil: "w \<noteq> [] \<Longrightarrow> replaceAll False n (lits w) repl [] = []"
  by (cases w) (simp_all add: matchAt_lits del: lits.simps)

lemma replaceAll_lits_Cons:
  "w \<noteq> [] \<Longrightarrow> 36 \<notin> set repl \<Longrightarrow>
   replaceAll False n (lits w) repl (x # xs) =
     (if startsWith (x # xs) w then repl @ replaceAll False n (lits w) repl (drop (length w - 1) xs)
      else x # replaceAll False n (lits w) repl xs)"
  by (simp add: matchAt_lits expand_plain)

lemma replaceAll_lits_len:
  "replaceAll False n (lits w) repl s = replaceAll False n' (lits w) repl s"
proof (induction "length s" arbitrary: s rule: less_induct)
  case less
  show ?case
  proof (cases s)
    case Nil
    then show ?thesis by (simp add: matchAt_lits)
  next
    case (Cons x xs)
    have "replaceAll False n (lits w) repl (drop (length w - 1) xs)
            = replaceAll False n' (lits w) repl (drop (length w - 1) xs)"
      by (rule less) (simp add: Cons)
    moreover have "replaceAll False n (lits w) repl xs = replaceAll False n' (lits w) repl xs"
      by (rule less) (simp add: Cons)
    ultimately show ?thesis by (simp add: Cons matchAt_lits)
  qed
qed

lemma String_replace_lits:
  "String_replace t (RegExp (lits w) ''g'') repl = replaceAll False 0 (lits w) repl t"
  by (simp add: String_replace_def replaceAll_lits_len[of "length t" w repl t 0])

lemma startsWith_boundary:
  "a \<notin> set w \<Longrightarrow> startsWith (v @ a # s) w = startsWith v w"
proof (induction v arbitrary: w)
  case Nil
  then show ?case by (cases w) auto
next
  case (Cons y v)
  then show ?case by (cases w) auto
qed

text \<open>A character that the pattern has at most as its first one ends every match before it.\<close>

lemma replaceAll_lits_boundary:
  assumes "w \<noteq> []" and "36 \<notin> set repl" and "a \<notin> set (tl w)"
  shows "replaceAll False n (lits w) repl (u @ a # s) =
           replaceAll False n (lits w) repl u @ replaceAll False n (lits w) repl (a # s)"
proof (induction u rule: length_induct)
  case (1 u)
  show ?case
  proof (cases u)
    case Nil
    with assms show ?thesis by (simp add: replaceAll_lits_Nil del: replaceAll.simps)
  next
    case (Cons x u')
    from assms(1) obtain p w' where w: "w = p # w'" by (cases w) auto
    with assms(3) have aw: "a \<notin> set w'" by simp
    have sw: "startsWith (x # u' @ a # s) w = startsWith (x # u') w"
      using aw by (simp add: w startsWith_boundary)
    show ?thesis
    proof (cases "startsWith (x # u') w")
      case True
      from startsWith_length[OF True] have len: "length w - 1 \<le> length u'" by auto
      have "length (drop (length w - 1) u') < length u" using Cons by simp
      with 1 have IH: "replaceAll False n (lits w) repl (drop (length w - 1) u' @ a # s) =
           replaceAll False n (lits w) repl (drop (length w - 1) u')
             @ replaceAll False n (lits w) repl (a # s)" by blast
      from True sw len IH show ?thesis
        by (simp add: Cons replaceAll_lits_Cons[OF assms(1,2)] del: replaceAll.simps)
    next
      case False
      have "length u' < length u" using Cons by simp
      with 1 have IH: "replaceAll False n (lits w) repl (u' @ a # s) =
           replaceAll False n (lits w) repl u' @ replaceAll False n (lits w) repl (a # s)" by blast
      from False sw IH show ?thesis
        by (simp add: Cons replaceAll_lits_Cons[OF assms(1,2)] del: replaceAll.simps)
    qed
  qed
qed


section \<open>Occurrences of a string\<close>

lemma includesStr_Nil [simp]: "includesStr t []"
  by (cases t) auto

lemma includesStr_tl: "includesStr xs w \<Longrightarrow> includesStr (x # xs) w"
  by simp

lemma includesStr_drop: "includesStr (drop k t) w \<Longrightarrow> includesStr t w"
proof (induction t arbitrary: k)
  case Nil
  then show ?case by simp
next
  case (Cons x xs)
  then show ?case by (cases k) auto
qed

lemma includesStr_prefix_disjoint:
  "set r \<inter> set w = {} \<Longrightarrow> w \<noteq> [] \<Longrightarrow> includesStr (r @ t) w = includesStr t w"
proof (induction r)
  case Nil
  then show ?case by simp
next
  case (Cons a r)
  then show ?case by (cases w) auto
qed

lemma replaceAll_lits_absent:
  "w \<noteq> [] \<Longrightarrow> 36 \<notin> set repl \<Longrightarrow> \<not> includesStr t w \<Longrightarrow>
   replaceAll False n (lits w) repl t = t"
  by (induction t) (simp_all add: replaceAll_lits_Nil replaceAll_lits_Cons del: replaceAll.simps)

lemma startsWith_replaceAll_lits:
  assumes "w \<noteq> []" and "36 \<notin> set repl" and "repl \<noteq> []"
  shows "set repl \<inter> set v = {} \<Longrightarrow> startsWith (replaceAll False n (lits w) repl xs) v \<Longrightarrow>
         startsWith xs v"
proof (induction xs arbitrary: v)
  case Nil
  then show ?case by (simp add: replaceAll_lits_Nil[OF assms(1)] del: replaceAll.simps)
next
  case (Cons x xs)
  show ?case
  proof (cases v)
    case Nil
    then show ?thesis by simp
  next
    case (Cons p v')
    from assms(3) obtain r1 rs where repl: "repl = r1 # rs" by (cases repl) auto
    show ?thesis
    proof (cases "startsWith (x # xs) w")
      case True
      then have eq: "replaceAll False n (lits w) repl (x # xs) =
          repl @ replaceAll False n (lits w) repl (drop (length w - 1) xs)"
        by (simp add: replaceAll_lits_Cons[OF assms(1,2)] del: replaceAll.simps)
      from Cons.prems(2) have "startsWith (repl @ replaceAll False n (lits w) repl (drop (length w - 1) xs)) v"
        unfolding eq .
      then have "r1 = p" unfolding repl Cons by simp
      with Cons.prems(1) repl Cons show ?thesis by auto
    next
      case False
      then have eq: "replaceAll False n (lits w) repl (x # xs) = x # replaceAll False n (lits w) repl xs"
        by (simp add: replaceAll_lits_Cons[OF assms(1,2)] del: replaceAll.simps)
      from Cons.prems(2) have "startsWith (x # replaceAll False n (lits w) repl xs) v"
        unfolding eq .
      then have "x = p" and "startsWith (replaceAll False n (lits w) repl xs) v'"
        unfolding Cons by simp_all
      moreover have "set repl \<inter> set v' = {}" using Cons.prems(1) Cons by auto
      ultimately show ?thesis using Cons.IH[of v'] Cons by simp
    qed
  qed
qed

text \<open>
  Replacing a string by characters that a string \<open>w'\<close> does not have creates no
  occurrence of \<open>w'\<close>, and removes every occurrence of the replaced string itself.
\<close>

lemma includesStr_replaceAll_lits:
  assumes "w \<noteq> []" and "36 \<notin> set repl" and "repl \<noteq> []"
    and "w' \<noteq> []" and "set repl \<inter> set w' = {}"
  shows "w' = w \<or> \<not> includesStr t w' \<Longrightarrow>
         \<not> includesStr (replaceAll False n (lits w) repl t) w'"
proof (induction t rule: length_induct)
  case (1 t)
  note step = replaceAll_lits_Cons[OF assms(1,2)]
  show ?case
  proof (cases t)
    case Nil
    with assms(4) show ?thesis
      by (simp add: replaceAll_lits_Nil[OF assms(1)] del: replaceAll.simps)
  next
    case (Cons x xs)
    from assms(4) obtain p v where w': "w' = p # v" by (cases w') auto
    show ?thesis
    proof (cases "startsWith (x # xs) w")
      case True
      let ?rest = "drop (length w - 1) xs"
      have "length ?rest < length t" using Cons by simp
      moreover have "w' = w \<or> \<not> includesStr ?rest w'"
        using 1(2) Cons includesStr_drop[of "length w - 1" xs w'] by auto
      ultimately have "\<not> includesStr (replaceAll False n (lits w) repl ?rest) w'"
        using 1(1) by blast
      with True show ?thesis
        by (simp add: Cons step includesStr_prefix_disjoint[OF assms(5,4)] del: replaceAll.simps)
    next
      case False
      have "length xs < length t" using Cons by simp
      moreover have c: "w' = w \<or> \<not> includesStr xs w'"
        using 1(2) Cons by auto
      ultimately have IH: "\<not> includesStr (replaceAll False n (lits w) repl xs) w'"
        using 1(1) by blast
      have "\<not> startsWith (x # replaceAll False n (lits w) repl xs) w'"
      proof
        assume a: "startsWith (x # replaceAll False n (lits w) repl xs) w'"
        then have xp: "x = p" and "startsWith (replaceAll False n (lits w) repl xs) v"
          by (simp_all add: w')
        moreover have "set repl \<inter> set v = {}" using assms(5) w' by auto
        ultimately have "startsWith xs v"
          using startsWith_replaceAll_lits[OF assms(1,2,3)] by blast
        with xp have sw: "startsWith (x # xs) w'" by (simp add: w')
        from 1(2) show False
        proof
          assume "w' = w"
          with sw False show False by simp
        next
          assume "\<not> includesStr t w'"
          with sw Cons show False by simp
        qed
      qed
      with IH False show ?thesis
        by (simp add: Cons step del: replaceAll.simps)
    qed
  qed
qed

lemmas decode_unfold = decodeEntities_def entity_def str_def String_replace_lits Let_def
  js_def ch_simps mdash_def ndash_def hellip_def apostrophe_def quote_def

text \<open>
  C10, amended. In the entity block the entities are replaced one after the other,
  \<open>&nbsp;\<close> before \<open>&amp;\<close> and \<open>&amp;\<close> before \<open>&mdash;\<close>. So wherever the text
  holds \<open>&amp;mdash;\<close> the text behind the block holds an em dash there, and wherever
  it holds \<open>&amp;nbsp;\<close> the text behind the block holds the letters \<open>&nbsp;\<close>;
  whatever stands before and behind is decoded on its own.
\<close>

theorem decode_order:
  "decodeEntities (a @ js ''&amp;mdash;'' @ b) = decodeEntities a @ [mdash] @ decodeEntities b
   \<and> decodeEntities (a @ js ''&amp;nbsp;'' @ b) = decodeEntities a @ js ''&nbsp;'' @ decodeEntities b"
  by (simp add: decode_unfold replaceAll_lits_boundary replaceAll_lits_Cons
      del: replaceAll.simps lits.simps)

section \<open>Successive replacements\<close>

lemma replaceEach_clean:
  assumes "\<forall>w \<in> S. w \<noteq> [] \<and> \<not> includesStr t w"
    and "\<forall>(p, c) \<in> set ps. c \<noteq> 36 \<and> p \<noteq> [] \<and> (\<forall>w \<in> S. c \<notin> set w)
            \<and> (\<forall>(q, d) \<in> set ps. c \<notin> set q)"
  shows "\<forall>w \<in> S \<union> fst ` set ps. \<not> includesStr (replaceEach ps t) w"
  using assms
proof (induction ps arbitrary: t S)
  case Nil
  then show ?case by simp
next
  case (Cons pc ps)
  obtain p c where pc: "pc = (p, c)" by (cases pc)
  let ?t = "replaceAll False 0 (lits p) [c] t"
  from Cons.prems(2) have c: "c \<noteq> 36" "p \<noteq> []" "c \<notin> set p" "\<forall>w \<in> S. c \<notin> set w"
    by (auto simp: pc)
  have a: "\<forall>w \<in> insert p S. w \<noteq> [] \<and> \<not> includesStr ?t w"
  proof
    fix w assume w: "w \<in> insert p S"
    with c Cons.prems(1) have ne: "w \<noteq> []" and d: "set [c] \<inter> set w = {}"
      and e: "w = p \<or> \<not> includesStr t w" by auto
    from includesStr_replaceAll_lits[OF c(2) _ _ ne d e] c(1)
    show "w \<noteq> [] \<and> \<not> includesStr ?t w" using ne by simp
  qed
  have b: "\<forall>(p', c') \<in> set ps. c' \<noteq> 36 \<and> p' \<noteq> [] \<and> (\<forall>w \<in> insert p S. c' \<notin> set w)
            \<and> (\<forall>(q, d) \<in> set ps. c' \<notin> set q)"
    using Cons.prems(2) by (fastforce simp: pc)
  from Cons.IH[OF a b] show ?case by (auto simp: pc String_replace_lits)
qed

lemma decodeEntities_steps:
  "decodeEntities t =
     replaceEach laterSteps
       (replaceAll False 0 (lits (js ''&amp;'')) (js ''&'')
          (replaceEach [(js ''&nbsp;'', 32)] t))"
  by (simp add: decode_unfold laterSteps_def del: replaceAll.simps lits.simps)

lemma decodeEntities_absent:
  assumes "\<forall>w \<in> set supportedEntities. \<not> includesStr t w"
  shows "decodeEntities t = t"
  using assms
  by (simp add: decode_unfold supportedEntities_def replaceAll_lits_absent
      del: replaceAll.simps lits.simps)

lemma decodeEntities_clean:
  assumes "\<not> includesStr t (js ''&amp;'')"
  shows "\<forall>w \<in> set supportedEntities. \<not> includesStr (decodeEntities t) w"
proof -
  let ?t1 = "replaceEach [(js ''&nbsp;'', 32)] t"
  have "\<forall>w \<in> {js ''&amp;''} \<union> fst ` set [(js ''&nbsp;'', 32::nat)]. \<not> includesStr ?t1 w"
    by (rule replaceEach_clean) (use assms in \<open>simp_all add: js_def ch_simps\<close>)
  then have one: "\<forall>w \<in> {js ''&amp;'', js ''&nbsp;''}. w \<noteq> [] \<and> \<not> includesStr ?t1 w"
    by (simp add: js_def)
  then have amp: "replaceAll False 0 (lits (js ''&amp;'')) (js ''&'') ?t1 = ?t1"
    by (intro replaceAll_lits_absent) (simp_all add: js_def ch_simps)
  have "\<forall>w \<in> {js ''&amp;'', js ''&nbsp;''} \<union> fst ` set laterSteps.
          \<not> includesStr (replaceEach laterSteps ?t1) w"
    by (rule replaceEach_clean[OF one])
      (simp add: laterSteps_def js_def ch_simps quote_def apostrophe_def mdash_def ndash_def
        hellip_def)
  then show ?thesis
    by (simp add: decodeEntities_steps amp supportedEntities_def laterSteps_def
        del: replaceAll.simps lits.simps replaceEach.simps)
qed

section \<open>The chapter loop\<close>

lemma loadChapters_map_filter:
  "loadChapters items zip' opfDir ids loaded =
     loaded @ List.map_filter (pushed items zip' opfDir) ids"
proof (induction ids arbitrary: loaded)
  case Nil
  then show ?case by (simp add: List.map_filter_simps)
next
  case (Cons i ids)
  show ?case
    by (simp add: Cons.IH List.map_filter_simps pushed_def split: sum.splits option.splits)
qed

lemma trim_nonempty:
  assumes "trim s \<noteq> []"
  shows "\<exists>c \<in> set s. \<not> isWhiteSpace c"
proof -
  from assms have "dropWhile isWhiteSpace (rev (dropWhile isWhiteSpace s)) \<noteq> []"
    by (simp add: trim_def)
  then obtain c where "c \<in> set (rev (dropWhile isWhiteSpace s))" and c: "\<not> isWhiteSpace c"
    by (auto simp: dropWhile_eq_Nil_conv)
  then have "c \<in> set s" by (auto dest: set_dropWhileD)
  with c show ?thesis by blast
qed

lemma pushed_nonblank:
  assumes "pushed items zip' opfDir id' = Some chapter"
  shows "trim (content chapter) \<noteq> []"
  using assms
  by (auto simp: pushed_def tryChapter_def Let_def
      split: sum.splits option.splits if_splits)

lemma smallBook_chapters:
  "extractChapters smallOpf smallZip [] = [\<lparr>content = js ''Hi'', Chapter.title = js ''Chapter''\<rparr>]"
  by (simp add: smallOpf_def smallZip_def ev List.find.simps del: ev_scan)

text \<open>
  C9. Every chapter of the list that \<open>extractChapters\<close> returns has a content that is
  not empty and not made of white space only: a chapter is pushed only when the trimmed
  text is not empty.
\<close>

theorem chapters_never_blank:
  assumes "chapter \<in> set (extractChapters opfContent zip' opfDir)"
  shows "content chapter \<noteq> [] \<and> trim (content chapter) \<noteq> []
         \<and> (\<exists>c \<in> set (content chapter). \<not> isWhiteSpace c)"
proof -
  from assms obtain items id' where "pushed items zip' opfDir id' = Some chapter"
    by (auto simp: extractChapters_def Let_def loadChapters_map_filter List.map_filter_def
        split: option.splits)
  then have t: "trim (content chapter) \<noteq> []" by (rule pushed_nonblank)
  from trim_nonempty[OF t] t show ?thesis by auto
qed

theorem chapters_never_blank_witness:
  "\<lparr>content = js ''Hi'', Chapter.title = js ''Chapter''\<rparr> \<in> set (extractChapters smallOpf smallZip [])
   \<and> js ''Hi'' \<noteq> [] \<and> trim (js ''Hi'') \<noteq> [] \<and> (\<exists>c \<in> set (js ''Hi''). \<not> isWhiteSpace c)"
  using chapters_never_blank[of "\<lparr>content = js ''Hi'', Chapter.title = js ''Chapter''\<rparr>"
      smallOpf smallZip "[]"]
  by (simp add: smallBook_chapters)





section \<open>Fatal errors\<close>

text \<open>
  C6. The archive \<open>parenZip\<close> has its container descriptor, the descriptor names the
  package document and the package document is there, yet the load fails: the cover id
  \<open>(\<close> goes into a pattern unescaped and \<open>new RegExp\<close> throws.
\<close>

theorem load_fails_on_cover_id:
  \<open>parenZip (js ''META-INF/container.xml'') \<noteq> None
   \<and> parenZip (js ''content.opf'') \<noteq> None
   \<and> metaCoverId parenOpf = Some (js ''('')
   \<and> RegExp_new (coverItemSource1 (js ''('')) ''i'' = Inl SyntaxError
   \<and> parseEpub parenZip = Inl SyntaxError
   \<and> error (loadEpub parenZip st) = Some SyntaxError\<close>
  by (simp add: parenZip_def parenOpf_def ev del: ev_scan)

section \<open>The cover\<close>






section \<open>Running the text extraction twice\<close>

text \<open>
  The text of a chapter as \<open>extractChapters\<close> computes it: the title is taken from the
  markup and passed on as the title to remove.
\<close>

lemma twoParagraphs_text:
  "extractTextFromHtml (js ''<p>a</p><p>b</p>'') (Some (extractTitle (js ''<p>a</p><p>b</p>'')))
     = Inr [97, 10, 10, 98]"
  by (simp add: ev del: ev_scan)

lemma twoLines_text:
  "extractTextFromHtml [97, 10, 10, 98] (Some (extractTitle [97, 10, 10, 98])) = Inr [97, 32, 98]"
  by (simp add: ev del: ev_scan)

text \<open>
  C1, as stated, fails. Two paragraphs give two lines with a blank line between them;
  run on that text, the first whitespace pass turns the line breaks into one space.
\<close>

theorem second_run_joins_lines:
  "extractTextFromHtml (js ''<p>a</p><p>b</p>'') (Some (extractTitle (js ''<p>a</p><p>b</p>'')))
     = Inr [97, 10, 10, 98]
   \<and> extractTextFromHtml [97, 10, 10, 98] (Some (extractTitle [97, 10, 10, 98]))
     \<noteq> Inr [97, 10, 10, 98]"
  by (simp add: twoParagraphs_text twoLines_text)

section \<open>Entities\<close>

lemma ampNbsp_text:
  "extractTextFromHtml (js ''&amp;nbsp;'') (Some (extractTitle (js ''&amp;nbsp;'')))
     = Inr (js ''&nbsp;'')"
  by (simp add: ev del: ev_scan)

text \<open>
  C8, as stated, fails. The text \<open>&amp;nbsp;\<close> comes out as \<open>&nbsp;\<close>: an entity of
  the supported set remains in the output, because \<open>&nbsp;\<close> was replaced before
  \<open>&amp;\<close> was.
\<close>

theorem entity_left_undecoded:
  "extractTextFromHtml (js ''&amp;nbsp;'') (Some (extractTitle (js ''&amp;nbsp;'')))
     = Inr (js ''&nbsp;'')
   \<and> js ''&nbsp;'' \<in> set supportedEntities
   \<and> includesStr (js ''&nbsp;'') (js ''&nbsp;'')"
proof -
  have b: "js ''&nbsp;'' \<in> set supportedEntities"
    by (simp add: supportedEntities_def)
  have c: "includesStr (js ''&nbsp;'') (js ''&nbsp;'')"
    by (simp add: js_def)
  from ampNbsp_text b c show ?thesis by blast
qed

text \<open>
  C8, amended. The entity block decodes each entity other than \<open>&amp;\<close> to its
  character wherever it stands, whatever is before and behind it (a plain space for
  \<open>&nbsp;\<close>, straight quotes for the four curly ones); it decodes \<open>&amp;\<close> to \<open>&\<close>,
  shown here at the end of the text and before a space; it leaves a text without any of
  the fourteen entities as it is; and when the text holds no \<open>&amp;\<close>, none of the
  fourteen is left behind the block.
\<close>

theorem entity_decoding:
  "decodeEntities (a @ js ''&nbsp;'' @ b) = decodeEntities a @ js '' '' @ decodeEntities b
   \<and> decodeEntities (a @ js ''&lt;'' @ b) = decodeEntities a @ js ''<'' @ decodeEntities b
   \<and> decodeEntities (a @ js ''&gt;'' @ b) = decodeEntities a @ js ''>'' @ decodeEntities b
   \<and> decodeEntities (a @ js ''&quot;'' @ b) = decodeEntities a @ [quote] @ decodeEntities b
   \<and> decodeEntities (a @ js ''&#39;'' @ b) = decodeEntities a @ [apostrophe] @ decodeEntities b
   \<and> decodeEntities (a @ js ''&apos;'' @ b) = decodeEntities a @ [apostrophe] @ decodeEntities b
   \<and> decodeEntities (a @ js ''&mdash;'' @ b) = decodeEntities a @ [mdash] @ decodeEntities b
   \<and> decodeEntities (a @ js ''&ndash;'' @ b) = decodeEntities a @ [ndash] @ decodeEntities b
   \<and> decodeEntities (a @ js ''&hellip;'' @ b) = decodeEntities a @ [hellip] @ decodeEntities b
   \<and> decodeEntities (a @ js ''&rsquo;'' @ b) = decodeEntities a @ [apostrophe] @ decodeEntities b
   \<and> decodeEntities (a @ js ''&lsquo;'' @ b) = decodeEntities a @ [apostrophe] @ decodeEntities b
   \<and> decodeEntities (a @ js ''&rdquo;'' @ b) = decodeEntities a @ [quote] @ decodeEntities b
   \<and> decodeEntities (a @ js ''&ldquo;'' @ b) = decodeEntities a @ [quote] @ decodeEntities b
   \<and> decodeEntities (a @ js ''&amp;'') = decodeEntities a @ js ''&''
   \<and> decodeEntities (a @ js ''&amp; '' @ b) = decodeEntities a @ js ''& '' @ decodeEntities b
   \<and> ((\<forall>w \<in> set supportedEntities. \<not> includesStr t w) \<longrightarrow> decodeEntities t = t)
   \<and> (\<not> includesStr t' (js ''&amp;'') \<longrightarrow>
        (\<forall>w \<in> set supportedEntities. \<not> includesStr (decodeEntities t') w))"
proof -
  have eqs: "decodeEntities (a @ js ''&nbsp;'' @ b) = decodeEntities a @ js '' '' @ decodeEntities b"
    "decodeEntities (a @ js ''&lt;'' @ b) = decodeEntities a @ js ''<'' @ decodeEntities b"
    "decodeEntities (a @ js ''&gt;'' @ b) = decodeEntities a @ js ''>'' @ decodeEntities b"
    "decodeEntities (a @ js ''&quot;'' @ b) = decodeEntities a @ [quote] @ decodeEntities b"
    "decodeEntities (a @ js ''&#39;'' @ b) = decodeEntities a @ [apostrophe] @ decodeEntities b"
    "decodeEntities (a @ js ''&apos;'' @ b) = decodeEntities a @ [apostrophe] @ decodeEntities b"
    "decodeEntities (a @ js ''&mdash;'' @ b) = decodeEntities a @ [mdash] @ decodeEntities b"
    "decodeEntities (a @ js ''&ndash;'' @ b) = decodeEntities a @ [ndash] @ decodeEntities b"
    "decodeEntities (a @ js ''&hellip;'' @ b) = decodeEntities a @ [hellip] @ decodeEntities b"
    "decodeEntities (a @ js ''&rsquo;'' @ b) = decodeEntities a @ [apostrophe] @ decodeEntities b"
    "decodeEntities (a @ js ''&lsquo;'' @ b) = decodeEntities a @ [apostrophe] @ decodeEntities b"
    "decodeEntities (a @ js ''&rdquo;'' @ b) = decodeEntities a @ [quote] @ decodeEntities b"
    "decodeEntities (a @ js ''&ldquo;'' @ b) = decodeEntities a @ [quote] @ decodeEntities b"
    "decodeEntities (a @ js ''&amp;'') = decodeEntities a @ js ''&''"
    "decodeEntities (a @ js ''&amp; '' @ b) = decodeEntities a @ js ''& '' @ decodeEntities b"
    by (simp_all add: decode_unfold replaceAll_lits_boundary replaceAll_lits_Cons
        replaceAll_lits_Nil del: replaceAll.simps lits.simps)
  from eqs decodeEntities_absent[of t] decodeEntities_clean[of t'] show ?thesis
    by blast
qed

theorem entity_decoding_witness:
  "decodeEntities (js ''&copy;'') = js ''&copy;''
   \<and> \<not> includesStr (js ''a&lt;b'') (js ''&amp;'')
   \<and> \<not> includesStr (decodeEntities (js ''a&lt;b'')) (js ''&lt;'')
   \<and> decodeEntities ([] @ js ''&lt;'' @ []) = decodeEntities [] @ js ''<'' @ decodeEntities []"
proof -
  have h1: "\<forall>w \<in> set supportedEntities. \<not> includesStr (js ''&copy;'') w"
    by (simp add: supportedEntities_def js_def ch_simps)
  have h2: "\<not> includesStr (js ''a&lt;b'') (js ''&amp;'')"
    by (simp add: js_def ch_simps)
  have h3: "js ''&lt;'' \<in> set supportedEntities"
    by (simp add: supportedEntities_def)
  from entity_decoding[of "[]" "[]" "js ''&copy;''" "js ''a&lt;b''"] h1 h2 h3 show ?thesis
    by blast
qed

lemma dashInTag_text:
  "extractTextFromHtml (js ''x &lt;&amp;mdash;&gt; y'')
     (Some (extractTitle (js ''x &lt;&amp;mdash;&gt; y''))) = Inr (js ''x y'')"
  by (simp add: ev del: ev_scan)

lemma nbspInTag_text:
  "extractTextFromHtml (js ''a&lt;&amp;nbsp;&gt;b'')
     (Some (extractTitle (js ''a&lt;&amp;nbsp;&gt;b''))) = Inr (js ''ab'')"
  by (simp add: ev del: ev_scan)

text \<open>
  C10, as stated, fails. The claim is about the output of the whole extraction. Where
  \<open>&amp;mdash;\<close> stands between \<open>&lt;\<close> and \<open>&gt;\<close>, the entity block leaves an em
  dash between \<open><\<close> and \<open>>\<close>, and the removal of the remaining tags, which comes
  next, takes all three away: the output has no em dash. In the same way the letters
  \<open>&nbsp;\<close> do not reach the output.
\<close>

theorem doubly_escaped_lost_in_tag:
  "includesStr (js ''x &lt;&amp;mdash;&gt; y'') (js ''&amp;mdash;'')
   \<and> extractTextFromHtml (js ''x &lt;&amp;mdash;&gt; y'')
         (Some (extractTitle (js ''x &lt;&amp;mdash;&gt; y''))) = Inr (js ''x y'')
   \<and> mdash \<notin> set (js ''x y'')
   \<and> includesStr (js ''a&lt;&amp;nbsp;&gt;b'') (js ''&amp;nbsp;'')
   \<and> extractTextFromHtml (js ''a&lt;&amp;nbsp;&gt;b'')
         (Some (extractTitle (js ''a&lt;&amp;nbsp;&gt;b''))) = Inr (js ''ab'')
   \<and> \<not> includesStr (js ''ab'') (js ''&nbsp;'')"
proof -
  have a: "includesStr (js ''x &lt;&amp;mdash;&gt; y'') (js ''&amp;mdash;'')"
    "includesStr (js ''a&lt;&amp;nbsp;&gt;b'') (js ''&amp;nbsp;'')"
    "mdash \<notin> set (js ''x y'')" "\<not> includesStr (js ''ab'') (js ''&nbsp;'')"
    by (simp_all add: js_def ch_simps mdash_def)
  from a dashInTag_text nbspInTag_text show ?thesis by blast
qed

section \<open>The end-to-end scenario\<close>

lemma scenario_container: "fullPath scenarioContainer = Some (js ''OEBPS/content.opf'')"
  by (simp add: scenarioContainer_def ev del: ev_scan)

lemma scenario_dir: "dirOf (js ''OEBPS/content.opf'') = js ''OEBPS/''"
  by (simp add: ev)

lemma scenario_entries:
  "scenarioZip coverData ch2 (js ''META-INF/container.xml'') =
     Some \<lparr>async_string = Inr scenarioContainer, async_base64 = Inr []\<rparr>"
  "scenarioZip coverData ch2 (js ''OEBPS/content.opf'') =
     Some \<lparr>async_string = Inr scenarioOpf, async_base64 = Inr []\<rparr>"
  by (simp_all add: scenarioZip_def js_def ch_simps)

lemma scenario_metadata:
  "extractMetadata scenarioOpf (scenarioZip coverData ch2) (js ''OEBPS/'') =
     Inr \<lparr>BookMetadata.title = js ''T'', author = js ''Unknown Author'',
          coverImage = Some (js ''data:image/jpeg;base64,'' @ coverData)\<rparr>"
  by (simp add: scenarioOpf_def scenarioZip_def ev del: ev_scan)

lemma scenario_chapterIds: "chapterIds scenarioOpf = [js ''ch1'', js ''ch2'']"
  by (simp add: scenarioOpf_def ev del: ev_scan)

lemma scenario_items: "manifestItems scenarioOpf = Some scenarioItems"
  by (simp add: scenarioOpf_def scenarioItems_def ev del: ev_scan)

lemma scenario_title: "extractTitle scenarioCh1 = js ''Intro''"
  by (simp add: scenarioCh1_def ev del: ev_scan)

lemma scenario_text:
  "extractTextFromHtml scenarioCh1 (Some (js ''Intro'')) = Inr (content scenarioChapter)"
  by (simp add: scenarioCh1_def scenarioChapter_def ev del: ev_scan)

lemma scenario_trim: "trim (content scenarioChapter) \<noteq> []"
  by (simp add: scenarioChapter_def ev)

lemma scenario_href:
  \<open>findItem scenarioItems (js ''ch1'') = Some (js ''<item id="ch1" href="ch1.xhtml"/>'')\<close>
  \<open>hrefOf (js ''<item id="ch1" href="ch1.xhtml"/>'') = Some (js ''ch1.xhtml'')\<close>
  "scenarioZip coverData ch2 (js ''OEBPS/'' @ js ''ch1.xhtml'') =
     Some \<lparr>async_string = Inr scenarioCh1, async_base64 = Inr []\<rparr>"
  by (simp_all add: scenarioItems_def scenarioZip_def ev List.find.simps del: ev_scan)

lemma scenario_pushed:
  "pushed scenarioItems (scenarioZip coverData ch2) (js ''OEBPS/'') (js ''ch1'')
     = Some scenarioChapter"
proof -
  have "pushed scenarioItems (scenarioZip coverData ch2) (js ''OEBPS/'') (js ''ch1'')
          = Some \<lparr>content = content scenarioChapter, Chapter.title = js ''Intro''\<rparr>"
    by (simp add: pushed_def tryChapter_def scenario_href scenario_title scenario_text
        scenario_trim)
  then show ?thesis
    by (simp add: scenarioChapter_def)
qed

lemma scenario_chapters:
  "extractChapters scenarioOpf (scenarioZip coverData ch2) (js ''OEBPS/'') =
     scenarioChapter
       # List.map_filter (pushed scenarioItems (scenarioZip coverData ch2) (js ''OEBPS/''))
           [js ''ch2'']"
  by (simp add: extractChapters_def scenario_chapterIds scenario_items loadChapters_map_filter
      scenario_pushed)

text \<open>
  C3. For the book of the scenario, whatever the bytes of the cover and the markup of the
  second chapter, the load succeeds, the first chapter has the title \<open>Intro\<close> and the
  content \<open>Hello world.\<close>, a blank line, and the two bullet lines, and the cover is a
  \<open>data:\<close> URI of type \<open>image/jpeg\<close>.
\<close>

theorem scenario_load:
  "\<exists>rest. parseEpub (scenarioZip coverData ch2) =
      Inr (\<lparr>BookMetadata.title = js ''T'', author = js ''Unknown Author'',
            coverImage = Some (js ''data:image/jpeg;base64,'' @ coverData)\<rparr>,
           \<lparr>content = js ''Hello world.'' @ [newline, newline, bullet] @ js '' A''
                        @ [newline, bullet] @ js '' B'',
            Chapter.title = js ''Intro''\<rparr> # rest)"
  by (simp add: parseEpub_def Let_def scenario_entries scenario_container scenario_dir
      scenario_metadata scenario_chapters scenarioChapter_def)

section \<open>Title and author\<close>

text \<open>
  C7. A title on one line is taken, without the blanks around it. A title that is broken
  over two lines is not found, since the dot of \<open>(.*?)\<close> does not read a line break,
  and the book gets the placeholder although it has a title.
\<close>

theorem title_over_two_lines:
  "extractMetadata oneLineTitleOpf Map.empty [] =
     Inr \<lparr>BookMetadata.title = js ''A B'', author = js ''Unknown Author'', coverImage = None\<rparr>
   \<and> extractMetadata twoLineTitleOpf Map.empty [] =
     Inr \<lparr>BookMetadata.title = js ''Unknown Title'', author = js ''Unknown Author'',
          coverImage = None\<rparr>"
  by (simp add: oneLineTitleOpf_def twoLineTitleOpf_def ev del: ev_scan)

end
